theory Spec2Isabelle
  imports Complex_Main
begin

section \<open>Autonomous recovery system: the data model\<close>

text \<open>
  The development embeds \<^verbatim>\<open>docs/next-gen/autonomous-recovery-system.py\<close>:
  symptom detection, severity assessment, plan generation, incident detection and
  the execution of a recovery plan.

  A telemetry snapshot is a Python dictionary \<^verbatim>\<open>Dict[str, Any]\<close>. Its values are
  modelled by \<open>pyval\<close>: \<^verbatim>\<open>None\<close>, an integer, a finite float (its exact rational
  value), the float NaN, or a string. A string stands for every value that a number
  cannot be compared with. Strings are byte sequences (UTF-8).
\<close>

datatype pyval = PNone | PInt int | PFloat rat | PNaN | PStr string

type_synonym snapshot = "string \<rightharpoonup> pyval"

text \<open>
  Exceptions are values that carry their message, \<^verbatim>\<open>str(e)\<close>. \<open>TypeError\<close> is
  what comparing \<^verbatim>\<open>None\<close> or a string with a number raises, \<open>AttributeError\<close> what a
  missing attribute raises, and \<open>Raised\<close> is any exception thrown by an external call.
  All of them are exceptions that \<^verbatim>\<open>except Exception\<close> catches; the cancellation of
  a task, which it does not catch, is outside the model.
\<close>

datatype exn = TypeError string | AttributeError string | Raised string


definition bind_exn :: "exn + 'a \<Rightarrow> ('a \<Rightarrow> exn + 'b) \<Rightarrow> exn + 'b" where
  "bind_exn m f = (case m of Inl e \<Rightarrow> Inl e | Inr x \<Rightarrow> f x)"

datatype IncidentSeverity = LOW | MEDIUM | HIGH | CRITICAL | CATASTROPHIC

fun severity_value :: "IncidentSeverity \<Rightarrow> int" where
  "severity_value LOW = 1"
| "severity_value MEDIUM = 2"
| "severity_value HIGH = 3"
| "severity_value CRITICAL = 4"
| "severity_value CATASTROPHIC = 5"

datatype RecoveryAction =
    RESTART_SERVICE | REBOOT_DEVICE | RECALIBRATE_SENSORS | UPDATE_FIRMWARE
  | SCALE_RESOURCES | NETWORK_RESET | FACTORY_RESET | REPLACE_HARDWARE
  | MANUAL_INTERVENTION

fun action_value :: "RecoveryAction \<Rightarrow> string" where
  "action_value RESTART_SERVICE = ''restart_service''"
| "action_value REBOOT_DEVICE = ''reboot_device''"
| "action_value RECALIBRATE_SENSORS = ''recalibrate_sensors''"
| "action_value UPDATE_FIRMWARE = ''update_firmware''"
| "action_value SCALE_RESOURCES = ''scale_resources''"
| "action_value NETWORK_RESET = ''network_reset''"
| "action_value FACTORY_RESET = ''factory_reset''"
| "action_value REPLACE_HARDWARE = ''replace_hardware''"
| "action_value MANUAL_INTERVENTION = ''manual_intervention''"



text \<open>One step of a recovery plan: the dictionary with these five keys.\<close>

record plan_step =
  step :: int
  action :: string
  description :: string
  estimated_time :: int
  risk_level :: string

section \<open>Strings and values as Python treats them\<close>

text \<open>
  \<^verbatim>\<open>str.lower\<close> on the ASCII letters; every other byte is left as it is. The keyword
  tests below search for lower-case ASCII words, and on them this agrees with Python
  for every text but one holding U+0130 or U+212A, the two code points outside ASCII
  whose lower-case form has an ASCII letter.
\<close>

definition lower_char :: "char \<Rightarrow> char" where
  "lower_char c =
     (case map_of (zip ''ABCDEFGHIJKLMNOPQRSTUVWXYZ'' ''abcdefghijklmnopqrstuvwxyz'') c of
        None \<Rightarrow> c
      | Some l \<Rightarrow> l)"

definition lower :: "string \<Rightarrow> string" where
  "lower s = map lower_char s"

fun starts_with :: "string \<Rightarrow> string \<Rightarrow> bool" where
  "starts_with [] s = True"
| "starts_with (k # ks) [] = False"
| "starts_with (k # ks) (c # cs) = (k = c \<and> starts_with ks cs)"

text \<open>\<^verbatim>\<open>kw in s\<close> for strings: \<open>kw\<close> occurs in \<open>s\<close> as a contiguous run.\<close>

fun is_in :: "string \<Rightarrow> string \<Rightarrow> bool" where
  "is_in kw [] = (kw = [])"
| "is_in kw (c # cs) = (starts_with kw (c # cs) \<or> is_in kw cs)"

text \<open>\<^verbatim>\<open>any(keyword in text for keyword in keywords)\<close>.\<close>

fun any_in :: "string list \<Rightarrow> string \<Rightarrow> bool" where
  "any_in [] s = False"
| "any_in (k # ks) s = (is_in k s \<or> any_in ks s)"

text \<open>\<^verbatim>\<open>dict.get(key, default)\<close>; \<^verbatim>\<open>dict.get(key)\<close> is the case \<open>default = PNone\<close>.\<close>

definition dict_get :: "snapshot \<Rightarrow> string \<Rightarrow> pyval \<Rightarrow> pyval" where
  "dict_get d k dflt = (case d k of None \<Rightarrow> dflt | Some v \<Rightarrow> v)"

text \<open>
  Comparison of a value with a numeric literal of the source. Python compares an
  integer with a float exactly, and a float \<open>x\<close> is below the float nearest to 3.2 (or
  0.1) exactly when its value is below 3.2 (or 0.1), so a float literal is the rational
  written in the source. Every comparison with NaN is false.
\<close>

datatype literal = IntLit int | FloatLit rat

fun lit_value :: "literal \<Rightarrow> rat" where
  "lit_value (IntLit i) = of_int i"
| "lit_value (FloatLit r) = r"

fun lit_type :: "literal \<Rightarrow> string" where
  "lit_type (IntLit i) = ''int''"
| "lit_type (FloatLit r) = ''float''"

fun type_name :: "pyval \<Rightarrow> string" where
  "type_name PNone = ''NoneType''"
| "type_name (PInt i) = ''int''"
| "type_name (PFloat r) = ''float''"
| "type_name PNaN = ''float''"
| "type_name (PStr s) = ''str''"

definition quoted :: "string \<Rightarrow> string" where
  "quoted s = CHR 0x27 # s @ [CHR 0x27]"

definition not_supported :: "string \<Rightarrow> pyval \<Rightarrow> literal \<Rightarrow> exn" where
  "not_supported opr v l =
     TypeError (quoted opr @ '' not supported between instances of ''
                @ quoted (type_name v) @ '' and '' @ quoted (lit_type l))"

fun py_lt :: "pyval \<Rightarrow> literal \<Rightarrow> exn + bool" where
  "py_lt (PInt i) l = Inr (of_int i < lit_value l)"
| "py_lt (PFloat r) l = Inr (r < lit_value l)"
| "py_lt PNaN l = Inr False"
| "py_lt PNone l = Inl (not_supported ''<'' PNone l)"
| "py_lt (PStr s) l = Inl (not_supported ''<'' (PStr s) l)"

fun py_gt :: "pyval \<Rightarrow> literal \<Rightarrow> exn + bool" where
  "py_gt (PInt i) l = Inr (of_int i > lit_value l)"
| "py_gt (PFloat r) l = Inr (r > lit_value l)"
| "py_gt PNaN l = Inr False"
| "py_gt PNone l = Inl (not_supported ''>'' PNone l)"
| "py_gt (PStr s) l = Inl (not_supported ''>'' (PStr s) l)"

text \<open>\<^verbatim>\<open>a or b\<close>: \<open>b\<close> is evaluated only when \<open>a\<close> is false.\<close>

definition py_or :: "exn + bool \<Rightarrow> exn + bool \<Rightarrow> exn + bool" where
  "py_or a b = (case a of Inl e \<Rightarrow> Inl e | Inr x \<Rightarrow> if x then Inr True else b)"

text \<open>
  \<^verbatim>\<open>np.isnan(value)\<close>, which raises \<^verbatim>\<open>TypeError\<close> on a value that is no number.
  numpy turns a Python integer into a 64-bit integer, signed or unsigned; an integer
  that fits neither becomes an object, and \<^verbatim>\<open>isnan\<close> raises on it as on a string.
\<close>

definition isnan_unsupported :: exn where
  "isnan_unsupported =
     TypeError (''ufunc '' @ quoted ''isnan'' @ '' not supported for the input types, and the ''
       @ ''inputs could not be safely coerced to any supported types according to the ''
       @ ''casting rule '' @ quoted (quoted ''safe''))"

definition numpy_integer :: "int \<Rightarrow> bool" where
  "numpy_integer i \<longleftrightarrow> - (2 ^ 63) \<le> i \<and> i \<le> 2 ^ 64 - 1"

fun np_isnan :: "pyval \<Rightarrow> exn + bool" where
  "np_isnan (PInt i) = (if numpy_integer i then Inr False else Inl isnan_unsupported)"
| "np_isnan (PFloat r) = Inr False"
| "np_isnan PNaN = Inr True"
| "np_isnan PNone = Inl isnan_unsupported"
| "np_isnan (PStr s) = Inl isnan_unsupported"

text \<open>The truth value of \<^verbatim>\<open>not v\<close> is the negation of this.\<close>

fun truthy :: "pyval \<Rightarrow> bool" where
  "truthy PNone = False"
| "truthy (PInt i) = (i \<noteq> 0)"
| "truthy (PFloat r) = (r \<noteq> 0)"
| "truthy PNaN = True"
| "truthy (PStr s) = (s \<noteq> [])"

text \<open>Decimal digits of an integer, as an f-string prints it.\<close>

fun nat_str :: "nat \<Rightarrow> string" where
  "nat_str n =
     (if n < 10 then [''0123456789'' ! n]
      else nat_str (n div 10) @ [''0123456789'' ! (n mod 10)])"

declare nat_str.simps [simp del]

definition int_str :: "int \<Rightarrow> string" where
  "int_str i = (if i < 0 then CHR ''-'' # nat_str (nat (- i)) else nat_str (nat i))"

text \<open>
  What an f-string prints for a value. The shortest decimal form Python prints for a
  float is not modelled: \<open>fs\<close>, a parameter, gives it.
\<close>

fun py_str :: "(rat \<Rightarrow> string) \<Rightarrow> pyval \<Rightarrow> string" where
  "py_str fs PNone = ''None''"
| "py_str fs (PInt i) = int_str i"
| "py_str fs (PFloat r) = fs r"
| "py_str fs PNaN = ''nan''"
| "py_str fs (PStr s) = s"

section \<open>Symptom detection\<close>

text \<open>
  \<^verbatim>\<open>if cond: symptoms.append(msg)\<close>, where evaluating \<open>cond\<close> may raise. The message
  is built only when the condition holds.
\<close>

definition append_if :: "exn + bool \<Rightarrow> string \<Rightarrow> string list \<Rightarrow> exn + string list" where
  "append_if c msg symptoms =
     (case c of Inl e \<Rightarrow> Inl e | Inr b \<Rightarrow> Inr (if b then symptoms @ [msg] else symptoms))"

text \<open>The loop over \<^verbatim>\<open>sensor_data.items()\<close>, in the order the dictionary was built.\<close>

fun check_sensors :: "(rat \<Rightarrow> string) \<Rightarrow> (string \<times> pyval) list \<Rightarrow> string list \<Rightarrow> exn + string list" where
  "check_sensors fs [] symptoms = Inr symptoms"
| "check_sensors fs ((sensor, v) # rest) symptoms =
     bind_exn
       (append_if (if v = PNone then Inr True else np_isnan v)
          (''Invalid '' @ sensor @ '' reading: '' @ py_str fs v) symptoms)
       (check_sensors fs rest)"

definition degrees_C :: string where
  "degrees_C = [CHR 0xC2, CHR 0xB0, CHR ''C'']"

definition detect_symptoms :: "(rat \<Rightarrow> string) \<Rightarrow> snapshot \<Rightarrow> exn + string list" where
  "detect_symptoms fs device_data =
    (let battery_voltage = dict_get device_data ''battery_voltage'' (PInt 0);
         temperature = dict_get device_data ''temperature'' (PInt 0);
         memory_usage = dict_get device_data ''memory_usage'' (PInt 0);
         cpu_usage = dict_get device_data ''cpu_usage'' (PInt 0);
         error_count = dict_get device_data ''error_count'' (PInt 0);
         wifi_signal = dict_get device_data ''wifi_signal_strength'' (PInt 0);
         uptime_hours = dict_get device_data ''uptime_hours'' (PInt 0);
         sensor_data =
           [(''temperature'', dict_get device_data ''temperature'' PNone),
            (''humidity'', dict_get device_data ''humidity'' PNone),
            (''pressure'', dict_get device_data ''pressure'' PNone)]
     in
     bind_exn (append_if (py_lt battery_voltage (FloatLit (16 / 5)))
        (''Low battery voltage: '' @ py_str fs battery_voltage @ ''V'') []) (\<lambda>s1.
     bind_exn (append_if (py_or (py_gt temperature (IntLit 50)) (py_lt temperature (IntLit (- 10))))
        (''Extreme temperature: '' @ py_str fs temperature @ degrees_C) s1) (\<lambda>s2.
     bind_exn (append_if (py_gt memory_usage (IntLit 90))
        (''High memory usage: '' @ py_str fs memory_usage @ ''%'') s2) (\<lambda>s3.
     bind_exn (append_if (py_gt cpu_usage (IntLit 95))
        (''High CPU usage: '' @ py_str fs cpu_usage @ ''%'') s3) (\<lambda>s4.
     bind_exn (append_if (py_gt error_count (IntLit 10))
        (''High error count: '' @ py_str fs error_count) s4) (\<lambda>s5.
     bind_exn (append_if (py_lt wifi_signal (IntLit (- 80)))
        (''Weak WiFi signal: '' @ py_str fs wifi_signal @ ''dBm'') s5) (\<lambda>s6.
     bind_exn (append_if (py_lt uptime_hours (FloatLit (1 / 10)))
        (''Frequent reboots detected: uptime '' @ py_str fs uptime_hours @ ''h'') s6) (\<lambda>s7.
     check_sensors fs sensor_data s7))))))))"

section \<open>Severity assessment\<close>

definition critical_keywords :: "string list" where
  "critical_keywords = [''battery'', ''temperature'', ''memory'', ''reboot'']"

text \<open>The loop over the symptoms, with the running integer score.\<close>

fun score_symptoms :: "string list \<Rightarrow> int \<Rightarrow> int" where
  "score_symptoms [] severity_score = severity_score"
| "score_symptoms (symptom # rest) severity_score =
     score_symptoms rest
       (if any_in critical_keywords (lower symptom) then severity_score + 2
        else severity_score + 1)"

text \<open>
  The score after \<^verbatim>\<open>severity_score *= 1.5\<close> is a float, the float nearest to the
  product. Python compares it with the integers 10, 7, 4 and 2 exactly; these are
  floats themselves and rounding is monotone, so each comparison has the outcome it
  has on the exact product, which the model uses.
\<close>

definition score_to_severity :: "rat \<Rightarrow> IncidentSeverity" where
  "score_to_severity severity_score =
     (if severity_score \<ge> 10 then CATASTROPHIC
      else if severity_score \<ge> 7 then CRITICAL
      else if severity_score \<ge> 4 then HIGH
      else if severity_score \<ge> 2 then MEDIUM
      else LOW)"

definition no_attribute :: "string \<Rightarrow> string \<Rightarrow> exn" where
  "no_attribute ty attr =
     AttributeError (quoted ty @ '' object has no attribute '' @ quoted attr)"

definition assess_severity :: "string list \<Rightarrow> snapshot \<Rightarrow> exn + IncidentSeverity" where
  "assess_severity symptoms device_data =
    (let severity_score = score_symptoms symptoms 0 in
     case dict_get device_data ''device_id'' (PStr '''') of
       PStr device_id \<Rightarrow>
         Inr (score_to_severity
           (if is_in ''critical'' (lower device_id) \<or> is_in ''production'' (lower device_id)
            then of_int severity_score * (3 / 2) else of_int severity_score))
     | v \<Rightarrow> Inl (no_attribute (type_name v) ''lower''))"

section \<open>Plan generation\<close>

definition mk_step :: "int \<Rightarrow> string \<Rightarrow> string \<Rightarrow> int \<Rightarrow> string \<Rightarrow> plan_step" where
  "mk_step n a descr t r =
     \<lparr>step = n, action = a, description = descr, estimated_time = t, risk_level = r\<rparr>"

definition generate_recovery_plan :: "string \<Rightarrow> IncidentSeverity \<Rightarrow> plan_step list" where
  "generate_recovery_plan root_cause severity =
    (let rc = lower root_cause;
         recovery_plan =
           [mk_step 1 ''diagnostic_check'' ''Perform comprehensive diagnostic check'' 2 ''low''] @
           (if is_in ''battery'' rc then
              [mk_step 2 (action_value RESTART_SERVICE) ''Restart power management service'' 1 ''low'',
               mk_step 3 ''battery_optimization'' ''Optimize power consumption settings'' 5 ''medium'']
            else if is_in ''temperature'' rc then
              [mk_step 2 ''cooling_check'' ''Check cooling system and ventilation'' 3 ''low'',
               mk_step 3 (action_value RECALIBRATE_SENSORS) ''Recalibrate temperature sensors'' 5 ''medium'']
            else if is_in ''memory'' rc \<or> is_in ''cpu'' rc then
              [mk_step 2 (action_value RESTART_SERVICE) ''Restart affected services'' 2 ''low'',
               mk_step 3 ''memory_cleanup'' ''Clear memory leaks and optimize usage'' 3 ''medium'']
            else if is_in ''reboot'' rc \<or> is_in ''crash'' rc then
              [mk_step 2 (action_value UPDATE_FIRMWARE) ''Update to stable firmware version'' 10 ''medium'',
               mk_step 3 ''stability_test'' ''Run stability test for 30 minutes'' 30 ''low'']
            else if is_in ''wifi'' rc \<or> is_in ''network'' rc then
              [mk_step 2 (action_value NETWORK_RESET) ''Reset network configuration'' 3 ''medium'',
               mk_step 3 ''network_optimization'' ''Optimize WiFi settings and antenna'' 5 ''low'']
            else [])
     in
     if severity_value severity \<ge> severity_value CRITICAL then
       recovery_plan @
         [mk_step (int (length recovery_plan) + 1) (action_value MANUAL_INTERVENTION)
            ''Request immediate manual intervention'' 30 ''low'']
     else recovery_plan)"

section \<open>External calls, state and exceptions\<close>

text \<open>
  Everything the class reaches outside itself (the model service, the cluster, the
  notification channels, the clock) and every method it calls without defining it is a
  parameter. A call is recorded as an \<open>event\<close> in a trace, and what a call returns or
  raises may depend on the whole trace before it, so a parameter can stand for any
  behaviour of the outside, one that changes from call to call included.
\<close>

datatype event =
    EvClock
  | EvOpenAI
  | EvBusinessImpact string
  | EvStakeholders string
  | EvClassify
  | EvEstimate
  | EvRecordIncident string
  | EvImmediateAlert string
  | EvDependencyImpact string
  | EvReadDeployment string
  | EvPatchDeployment string int
  | EvWorkOrder string
  | EvSlack string
  | EvSms string
  | EvEmail string
  | EvCustomAction string string
  | EvVerifyStep string string
  | EvVerifyFull string
  | EvConfidence
  | EvFollowUp
  | EvRecordResult string
  | EvLearn string
  | EvNotification string

text \<open>
  A computation over a state \<open>'s\<close> that returns a value or raises. The state it leaves
  is kept when it raises: what was appended to a list before the exception stays.
\<close>

type_synonym ('s, 'a) prog = "'s \<Rightarrow> (exn + 'a) \<times> 's"

definition ret :: "'a \<Rightarrow> ('s, 'a) prog" where
  "ret x = (\<lambda>s. (Inr x, s))"

definition lift_exn :: "exn + 'a \<Rightarrow> ('s, 'a) prog" where
  "lift_exn r = (\<lambda>s. (r, s))"

definition and_then :: "('s, 'a) prog \<Rightarrow> ('a \<Rightarrow> ('s, 'b) prog) \<Rightarrow> ('s, 'b) prog" where
  "and_then m f = (\<lambda>s. case m s of (Inl e, s') \<Rightarrow> (Inl e, s') | (Inr x, s') \<Rightarrow> f x s')"

text \<open>\<^verbatim>\<open>try: m  except Exception as e: h(e)\<close>.\<close>

definition try_except :: "('s, 'a) prog \<Rightarrow> (exn \<Rightarrow> ('s, 'a) prog) \<Rightarrow> ('s, 'a) prog" where
  "try_except m h = (\<lambda>s. case m s of (Inl e, s') \<Rightarrow> h e s' | (Inr x, s') \<Rightarrow> (Inr x, s'))"

text \<open>An external call: its outcome is read off the trace so far, then it is recorded.\<close>

definition call :: "event \<Rightarrow> (event list \<Rightarrow> exn + 'a) \<Rightarrow> (event list, 'a) prog" where
  "call ev f = (\<lambda>t. (f t, t @ [ev]))"

record pydatetime =
  stamp :: string
  seconds :: rat

record IncidentReport =
  incident_id :: string
  device_id :: string
  incident_type :: string
  severity :: IncidentSeverity
  detection_time :: pydatetime
  symptoms :: "string list"
  root_cause :: "string option"
  recovery_plan :: "plan_step list"
  estimated_recovery_time :: int
  business_impact :: string
  stakeholders :: "string list"




text \<open>The dictionary an action handler returns: keys \<^verbatim>\<open>success\<close>, \<^verbatim>\<open>status\<close>, \<^verbatim>\<open>error\<close>.\<close>

record action_result =
  result_success :: bool
  status :: string
  error :: "string option"

record runtime =
  float_str :: "rat \<Rightarrow> string"
  now :: "event list \<Rightarrow> pydatetime"

text \<open>
  What \<^verbatim>\<open>detect_incident\<close> calls: the chat completion of the model service, and five
  methods the class uses and does not define.
\<close>

record detection_caps =
  openai_chat :: "event list \<Rightarrow> string list \<Rightarrow> snapshot \<Rightarrow> exn + string"
  assess_business_impact :: "event list \<Rightarrow> string \<Rightarrow> IncidentSeverity \<Rightarrow> exn + string"
  identify_stakeholders :: "event list \<Rightarrow> string \<Rightarrow> IncidentSeverity \<Rightarrow> exn + string list"
  classify_incident_type :: "event list \<Rightarrow> string list \<Rightarrow> exn + string"
  estimate_recovery_time :: "event list \<Rightarrow> plan_step list \<Rightarrow> exn + int"
  record_incident :: "event list \<Rightarrow> IncidentReport \<Rightarrow> exn + unit"
  send_immediate_alert :: "event list \<Rightarrow> IncidentReport \<Rightarrow> exn + unit"








text \<open>\<^verbatim>\<open>str.strip()\<close>, for the ASCII white space.\<close>

definition is_space :: "char \<Rightarrow> bool" where
  "is_space c = (let n = (of_char c :: nat) in (9 \<le> n \<and> n \<le> 13) \<or> (28 \<le> n \<and> n \<le> 32))"

definition strip :: "string \<Rightarrow> string" where
  "strip s = rev (dropWhile is_space (rev (dropWhile is_space s)))"

section \<open>Incident detection\<close>

definition fallback_cause :: string where
  "fallback_cause = ''Unable to determine root cause due to analysis error''"

text \<open>
  \<^verbatim>\<open>_analyze_root_cause\<close>: the whole body is inside \<^verbatim>\<open>try\<close>, and the handler
  returns the fixed sentence.
\<close>

definition analyze_root_cause ::
  "detection_caps \<Rightarrow> string list \<Rightarrow> snapshot \<Rightarrow> (event list, string) prog" where
  "analyze_root_cause caps syms device_data =
     try_except
       (and_then (call EvOpenAI (\<lambda>t. openai_chat caps t syms device_data))
          (\<lambda>content. ret (strip content)))
       (\<lambda>e. ret fallback_cause)"

text \<open>
  \<^verbatim>\<open>detect_incident\<close>. Nothing here catches an exception. Past the severity
  assessment the device id is a string (\<open>assess_severity\<close> has called its
  \<^verbatim>\<open>lower\<close>), and \<open>py_str\<close> reads it.
\<close>

definition detect_incident ::
  "runtime \<Rightarrow> detection_caps \<Rightarrow> snapshot \<Rightarrow> (event list, IncidentReport option) prog" where
  "detect_incident rt caps device_data =
    (let dev = dict_get device_data ''device_id'' PNone in
     if \<not> truthy dev then ret None
     else
       and_then (lift_exn (detect_symptoms (float_str rt) device_data)) (\<lambda>syms.
       if syms = [] then ret None
       else
         and_then (lift_exn (assess_severity syms device_data)) (\<lambda>sev.
         and_then (analyze_root_cause caps syms device_data) (\<lambda>cause.
         let plan = generate_recovery_plan cause sev;
             dev_id = py_str (float_str rt) dev
         in
         and_then (call (EvBusinessImpact dev_id) (\<lambda>t. assess_business_impact caps t dev_id sev)) (\<lambda>impact.
         and_then (call (EvStakeholders dev_id) (\<lambda>t. identify_stakeholders caps t dev_id sev)) (\<lambda>holders.
         and_then (call EvClock (\<lambda>t. Inr (now rt t))) (\<lambda>id_time.
         let inc_id = ''INC-'' @ stamp id_time @ ''-'' @ dev_id in
         and_then (call EvClassify (\<lambda>t. classify_incident_type caps t syms)) (\<lambda>kind.
         and_then (call EvClock (\<lambda>t. Inr (now rt t))) (\<lambda>det_time.
         and_then (call EvEstimate (\<lambda>t. estimate_recovery_time caps t plan)) (\<lambda>eta.
         let incident =
               \<lparr>incident_id = inc_id, device_id = dev_id, incident_type = kind,
                severity = sev, detection_time = det_time, symptoms = syms,
                root_cause = Some cause, recovery_plan = plan,
                estimated_recovery_time = eta, business_impact = impact,
                stakeholders = holders\<rparr>
         in
         and_then (call (EvRecordIncident inc_id) (\<lambda>t. record_incident caps t incident)) (\<lambda>_.
         and_then
           (if severity_value sev \<ge> severity_value CRITICAL
            then call (EvImmediateAlert inc_id) (\<lambda>t. send_immediate_alert caps t incident)
            else ret ()) (\<lambda>_.
         ret (Some incident)))))))))))))"

section \<open>Action handlers\<close>
















section \<open>Executing a recovery plan\<close>





section \<open>The severity algorithm in the words of the specification\<close>

text \<open>
  The specification's algorithm, written from its sentence and not from the code: the
  sum of the symptoms' weights, times the device's multiplier, clipped to the scale. A
  text mentions a word when the word occurs in it, whatever the case of its letters.
\<close>

definition spec_mentions :: "string \<Rightarrow> string \<Rightarrow> bool" where
  "spec_mentions txt word = is_in word (lower txt)"

definition symptom_weight :: "string \<Rightarrow> int" where
  "symptom_weight symptom =
     (if spec_mentions symptom ''battery'' \<or> spec_mentions symptom ''temperature''
         \<or> spec_mentions symptom ''memory'' \<or> spec_mentions symptom ''reboot''
      then 2 else 1)"

definition device_criticality_multiplier :: "string \<Rightarrow> rat" where
  "device_criticality_multiplier dev =
     (if spec_mentions dev ''critical'' \<or> spec_mentions dev ''production'' then 3 / 2 else 1)"

definition clip_to_scale :: "rat \<Rightarrow> IncidentSeverity" where
  "clip_to_scale score =
     (if score \<ge> 10 then CATASTROPHIC else if score \<ge> 7 then CRITICAL
      else if score \<ge> 4 then HIGH else if score \<ge> 2 then MEDIUM else LOW)"

definition spec_severity :: "string list \<Rightarrow> string \<Rightarrow> IncidentSeverity" where
  "spec_severity S dev =
     clip_to_scale (of_int (sum_list (map symptom_weight S)) * device_criticality_multiplier dev)"

section \<open>Plans: named steps\<close>

definition diagnostic_step :: plan_step where
  "diagnostic_step =
     mk_step 1 ''diagnostic_check'' ''Perform comprehensive diagnostic check'' 2 ''low''"

definition manual_step :: "int \<Rightarrow> plan_step" where
  "manual_step n =
     mk_step n (action_value MANUAL_INTERVENTION) ''Request immediate manual intervention'' 30 ''low''"

definition is_manual :: "plan_step \<Rightarrow> bool" where
  "is_manual st = (action st = action_value MANUAL_INTERVENTION)"

section \<open>Snapshots of the scenarios\<close>

text \<open>
  The float that the literal 3.1 denotes: the double nearest to 3.1, which lies a
  little above it.
\<close>

definition float_3_1 :: rat where
  "float_3_1 = 6980579422424269 / 2251799813685248"

text \<open>A reading that is a number and at most, or at least, a bound.\<close>

definition at_most :: "pyval \<Rightarrow> rat \<Rightarrow> bool" where
  "at_most v t = (case v of PInt i \<Rightarrow> of_int i \<le> t | PFloat r \<Rightarrow> r \<le> t | _ \<Rightarrow> False)"

definition at_least :: "pyval \<Rightarrow> rat \<Rightarrow> bool" where
  "at_least v t = (case v of PInt i \<Rightarrow> t \<le> of_int i | PFloat r \<Rightarrow> t \<le> r | _ \<Rightarrow> False)"

text \<open>
  A valid sensor reading: a float that is not NaN, or an integer that \<^verbatim>\<open>np.isnan\<close>
  accepts.
\<close>

definition valid_reading :: "pyval \<Rightarrow> bool" where
  "valid_reading v = (case v of PInt i \<Rightarrow> numpy_integer i | PFloat r \<Rightarrow> True | _ \<Rightarrow> False)"

text \<open>
  Scenario A: a device whose id names neither critical nor production reports a
  battery voltage of 3.1 (the float); temperature, humidity and pressure are present
  and valid, and every other metric is inside the range the detector accepts (a metric
  that is absent counts as the 0 the detector reads for it).
\<close>

definition scenario_A :: "snapshot \<Rightarrow> bool" where
  "scenario_A d \<longleftrightarrow>
     d ''battery_voltage'' = Some (PFloat float_3_1) \<and>
     at_least (dict_get d ''temperature'' PNone) (- 10) \<and>
     at_most (dict_get d ''temperature'' PNone) 50 \<and>
     valid_reading (dict_get d ''humidity'' PNone) \<and>
     valid_reading (dict_get d ''pressure'' PNone) \<and>
     at_most (dict_get d ''memory_usage'' (PInt 0)) 90 \<and>
     at_most (dict_get d ''cpu_usage'' (PInt 0)) 95 \<and>
     at_most (dict_get d ''error_count'' (PInt 0)) 10 \<and>
     at_least (dict_get d ''wifi_signal_strength'' (PInt 0)) (- 80) \<and>
     at_least (dict_get d ''uptime_hours'' (PInt 0)) (1 / 10) \<and>
     (case dict_get d ''device_id'' PNone of
        PStr dev \<Rightarrow> dev \<noteq> [] \<and> \<not> is_in ''critical'' (lower dev) \<and> \<not> is_in ''production'' (lower dev)
      | _ \<Rightarrow> False)"

definition low_battery_symptom :: "string \<Rightarrow> string" where
  "low_battery_symptom volts = ''Low battery voltage: '' @ volts @ ''V''"

definition restarts_power_service :: "plan_step \<Rightarrow> bool" where
  "restarts_power_service st \<longleftrightarrow>
     action st = action_value RESTART_SERVICE \<and>
     description st = ''Restart power management service''"

text \<open>A metric that is absent or a number (NaN included): no comparison with it raises.\<close>

definition numeric_or_missing :: "snapshot \<Rightarrow> string \<Rightarrow> bool" where
  "numeric_or_missing d k =
     (case d k of None \<Rightarrow> True | Some (PInt i) \<Rightarrow> True | Some (PFloat r) \<Rightarrow> True
      | Some PNaN \<Rightarrow> True | Some _ \<Rightarrow> False)"

text \<open>
  A sensor reading the validity check accepts without raising: absent or \<^verbatim>\<open>None\<close>
  (\<^verbatim>\<open>np.isnan\<close> is not reached), a float, or an integer that \<^verbatim>\<open>np.isnan\<close> accepts.
\<close>

definition checkable :: "snapshot \<Rightarrow> string \<Rightarrow> bool" where
  "checkable d k =
     (case d k of None \<Rightarrow> True | Some PNone \<Rightarrow> True | Some (PInt i) \<Rightarrow> numpy_integer i
      | Some (PFloat r) \<Rightarrow> True | Some PNaN \<Rightarrow> True | Some (PStr s) \<Rightarrow> False)"

definition metric_keys :: "string list" where
  "metric_keys = [''battery_voltage'', ''temperature'', ''memory_usage'', ''cpu_usage'',
     ''error_count'', ''wifi_signal_strength'', ''uptime_hours'']"

definition sensor_keys :: "string list" where
  "sensor_keys = [''temperature'', ''humidity'', ''pressure'']"

text \<open>
  The metrics the detector compares are numbers or absent, and the three sensor
  readings are ones the validity check accepts.
\<close>

definition numeric_metrics :: "snapshot \<Rightarrow> bool" where
  "numeric_metrics d \<longleftrightarrow>
     list_all (numeric_or_missing d) metric_keys \<and> list_all (checkable d) sensor_keys"

definition invalid_reading_symptom :: "string \<Rightarrow> string" where
  "invalid_reading_symptom sensor = ''Invalid '' @ sensor @ '' reading: None''"

section \<open>Concrete inputs and surroundings\<close>

definition sample_runtime :: runtime where
  "sample_runtime =
     \<lparr>float_str = (\<lambda>r. if r = float_3_1 then ''3.1'' else ''0.0''),
      now = (\<lambda>t. \<lparr>stamp = ''20240101120000'', seconds = of_nat (length t)\<rparr>)\<rparr>"

definition sample_detection_caps :: detection_caps where
  "sample_detection_caps =
     \<lparr>openai_chat = (\<lambda>t syms d. Inr ''  Battery cell degraded ''),
      assess_business_impact = (\<lambda>t dev sev. Inr ''minor''),
      identify_stakeholders = (\<lambda>t dev sev. Inr [''operations'']),
      classify_incident_type = (\<lambda>t syms. Inr ''power''),
      estimate_recovery_time = (\<lambda>t plan. Inr (sum_list (map estimated_time plan))),
      record_incident = (\<lambda>t inc. Inr ()),
      send_immediate_alert = (\<lambda>t inc. Inr ())\<rparr>"


definition scenario_A_snapshot :: snapshot where
  "scenario_A_snapshot = map_of
     [(''device_id'', PStr ''ESP32-001''), (''temperature'', PFloat 25),
      (''humidity'', PFloat 45), (''pressure'', PFloat 1013),
      (''battery_voltage'', PFloat float_3_1), (''cpu_usage'', PFloat 40),
      (''memory_usage'', PFloat 55), (''wifi_signal_strength'', PInt (- 60)),
      (''error_count'', PInt 2), (''uptime_hours'', PFloat 120)]"

definition only_device_id :: "string \<Rightarrow> snapshot" where
  "only_device_id dev = map_of [(''device_id'', PStr dev)]"

definition null_temperature_snapshot :: snapshot where
  "null_temperature_snapshot = map_of
     [(''device_id'', PStr ''ESP32-001''), (''temperature'', PNone),
      (''battery_voltage'', PFloat float_3_1)]"

section \<open>Helpers that return\<close>

text \<open>
  The six methods \<^verbatim>\<open>detect_incident\<close> calls and the class does not define: none of
  them raises, whatever the trace and the arguments.
\<close>

definition helpers_return :: "detection_caps \<Rightarrow> bool" where
  "helpers_return caps \<longleftrightarrow>
     (\<forall>t dev sev e. assess_business_impact caps t dev sev \<noteq> Inl e) \<and>
     (\<forall>t dev sev e. identify_stakeholders caps t dev sev \<noteq> Inl e) \<and>
     (\<forall>t syms e. classify_incident_type caps t syms \<noteq> Inl e) \<and>
     (\<forall>t plan e. estimate_recovery_time caps t plan \<noteq> Inl e) \<and>
     (\<forall>t inc e. record_incident caps t inc \<noteq> Inl e) \<and>
     (\<forall>t inc e. send_immediate_alert caps t inc \<noteq> Inl e)"

section \<open>Reading a trace\<close>








text \<open>A computation that returns from every state.\<close>

definition never_raises :: "('s, 'a) prog \<Rightarrow> bool" where
  "never_raises m \<longleftrightarrow> (\<forall>s. \<exists>x. fst (m s) = Inr x)"


definition sample_incident :: IncidentReport where
  "sample_incident =
     \<lparr>incident_id = ''INC-20240101120000-ESP32-001'', device_id = ''ESP32-001'',
      incident_type = ''power'', severity = MEDIUM,
      detection_time = \<lparr>stamp = ''20240101120000'', seconds = 5\<rparr>,
      symptoms = [''Low battery voltage: 3.1V''],
      root_cause = Some ''Battery cell degraded'',
      recovery_plan = generate_recovery_plan ''Battery cell degraded'' MEDIUM,
      estimated_recovery_time = 8, business_impact = ''minor'',
      stakeholders = [''operations'']\<rparr>"


section \<open>What an incident report holds\<close>

text \<open>The string \<^verbatim>\<open>_analyze_root_cause\<close> returns when it is called at trace \<open>t\<close>.\<close>

definition analyzed_cause :: "detection_caps \<Rightarrow> string list \<Rightarrow> snapshot \<Rightarrow> event list \<Rightarrow> string" where
  "analyzed_cause caps syms d t =
     (case openai_chat caps t syms d of Inl e \<Rightarrow> fallback_cause | Inr content \<Rightarrow> strip content)"

text \<open>
  The trace after the first \<open>n\<close> calls \<^verbatim>\<open>detect_incident\<close> makes for device \<open>dev\<close>,
  started at trace \<open>t\<close>: the model service, the business impact, the stakeholders, the
  clock (for the incident id), the classification, the clock (for the detection time)
  and the estimate of the recovery time. The eighth call records the incident, and the
  ninth, for a severity of CRITICAL or above, sends the immediate alert.
\<close>

definition calls_made :: "event list \<Rightarrow> string \<Rightarrow> nat \<Rightarrow> event list" where
  "calls_made t dev n =
     t @ take n [EvOpenAI, EvBusinessImpact dev, EvStakeholders dev, EvClock, EvClassify,
                 EvClock, EvEstimate]"

text \<open>
  The fields of a report that \<^verbatim>\<open>detect_incident\<close> computes from the snapshot, the
  model service and the clock: the report is one for snapshot \<open>d\<close>, detected from
  trace \<open>t\<close>.
\<close>

definition detected :: "runtime \<Rightarrow> detection_caps \<Rightarrow> snapshot \<Rightarrow> event list \<Rightarrow> IncidentReport \<Rightarrow> bool" where
  "detected rt caps d t inc \<longleftrightarrow>
     d ''device_id'' = Some (PStr (device_id inc)) \<and> device_id inc \<noteq> [] \<and>
     detect_symptoms (float_str rt) d = Inr (symptoms inc) \<and> symptoms inc \<noteq> [] \<and>
     assess_severity (symptoms inc) d = Inr (severity inc) \<and>
     root_cause inc = Some (analyzed_cause caps (symptoms inc) d t) \<and>
     recovery_plan inc =
       generate_recovery_plan (analyzed_cause caps (symptoms inc) d t) (severity inc) \<and>
     incident_id inc =
       ''INC-'' @ stamp (now rt (calls_made t (device_id inc) 3)) @ ''-'' @ device_id inc \<and>
     detection_time inc = now rt (calls_made t (device_id inc) 5)"

definition alert_due :: "IncidentReport \<Rightarrow> bool" where
  "alert_due inc \<longleftrightarrow> severity_value (severity inc) \<ge> severity_value CRITICAL"

text \<open>
  Each helper call \<^verbatim>\<open>detect_incident\<close> makes for the report, at the trace at which it
  makes the call, returned, and the report holds what the call returned: the incident
  was recorded, and the alert, where one is due, was sent.
\<close>

definition helper_calls_returned :: "detection_caps \<Rightarrow> event list \<Rightarrow> IncidentReport \<Rightarrow> bool" where
  "helper_calls_returned caps t inc \<longleftrightarrow>
     assess_business_impact caps (calls_made t (device_id inc) 1) (device_id inc) (severity inc)
       = Inr (business_impact inc) \<and>
     identify_stakeholders caps (calls_made t (device_id inc) 2) (device_id inc) (severity inc)
       = Inr (stakeholders inc) \<and>
     classify_incident_type caps (calls_made t (device_id inc) 4) (symptoms inc)
       = Inr (incident_type inc) \<and>
     estimate_recovery_time caps (calls_made t (device_id inc) 6) (recovery_plan inc)
       = Inr (estimated_recovery_time inc) \<and>
     record_incident caps (calls_made t (device_id inc) 7) inc = Inr () \<and>
     (alert_due inc \<longrightarrow>
        send_immediate_alert caps
          (calls_made t (device_id inc) 7 @ [EvRecordIncident (incident_id inc)]) inc = Inr ())"

text \<open>The surroundings of the samples, with an incident store that fails.\<close>

definition unrecorded_caps :: detection_caps where
  "unrecorded_caps = sample_detection_caps\<lparr>record_incident := \<lambda>t inc. Inl (Raised ''disk full'')\<rparr>"

section \<open>Facts about strings and scores\<close>

lemma starts_with_iff: "starts_with kw s \<longleftrightarrow> (\<exists>q. s = kw @ q)"
  by (induction kw s rule: starts_with.induct) auto

lemma is_in_iff: "is_in kw s \<longleftrightarrow> (\<exists>p q. s = p @ kw @ q)"
proof (induction s)
  case Nil
  then show ?case by auto
next
  case (Cons c cs)
  show ?case
  proof
    assume "is_in kw (c # cs)"
    then consider "starts_with kw (c # cs)" | "is_in kw cs" by auto
    then show "\<exists>p q. c # cs = p @ kw @ q"
    proof cases
      case 1
      then obtain q where "c # cs = kw @ q" by (auto simp: starts_with_iff)
      then have "c # cs = [] @ kw @ q" by simp
      then show ?thesis by blast
    next
      case 2
      then obtain p q where "cs = p @ kw @ q" using Cons.IH by auto
      then have "c # cs = (c # p) @ kw @ q" by simp
      then show ?thesis by blast
    qed
  next
    assume "\<exists>p q. c # cs = p @ kw @ q"
    then obtain p q where pq: "c # cs = p @ kw @ q" by blast
    show "is_in kw (c # cs)"
    proof (cases p)
      case Nil
      with pq have "starts_with kw (c # cs)" by (auto simp: starts_with_iff)
      then show ?thesis by simp
    next
      case (Cons a p')
      with pq have "cs = p' @ kw @ q" by simp
      then have "is_in kw cs" using Cons.IH by blast
      then show ?thesis by simp
    qed
  qed
qed

lemma is_in_append_left: "is_in kw a \<Longrightarrow> is_in kw (a @ b)"
  unfolding is_in_iff by (metis append.assoc)

lemma is_in_append_right: "is_in kw b \<Longrightarrow> is_in kw (a @ b)"
  unfolding is_in_iff by (metis append.assoc)

lemma lower_append: "lower (a @ b) = lower a @ lower b"
  by (simp add: lower_def)

lemma score_symptoms_acc: "score_symptoms S acc = acc + score_symptoms S 0"
proof (induction S arbitrary: acc)
  case Nil
  then show ?case by simp
next
  case (Cons s S)
  show ?case
    using Cons.IH [of "acc + 2"] Cons.IH [of "acc + 1"] Cons.IH [of 2] Cons.IH [of 1]
    by simp
qed

lemma score_symptoms_snoc:
  "score_symptoms (S @ [s]) acc =
     score_symptoms S acc + (if any_in critical_keywords (lower s) then 2 else 1)"
  by (induction S arbitrary: acc) auto

lemma score_to_severity_mono:
  "a \<le> b \<Longrightarrow> severity_value (score_to_severity a) \<le> severity_value (score_to_severity b)"
  by (simp add: score_to_severity_def)

section \<open>Severity assessment: monotonicity\<close>

text \<open>
  C3. Adding a symptom never lowers the assessed severity. For every snapshot \<open>d\<close>,
  symptom list \<open>S\<close> and further symptom \<open>s\<close>, either both assessments return, and the
  severity for \<open>S @ [s]\<close> is at least the severity for \<open>S\<close> in the order LOW, MEDIUM,
  HIGH, CRITICAL, CATASTROPHIC (the order of the enumeration's values), or, when the
  device id of \<open>d\<close> is no string, both raise the same exception.
\<close>

theorem assess_severity_monotone:
  "rel_sum (=) (\<lambda>a b. severity_value a \<le> severity_value b)
     (assess_severity S d) (assess_severity (S @ [s]) d)"
proof (cases "dict_get d ''device_id'' (PStr '''')")
  case (PStr dev)
  have le: "score_symptoms S 0 \<le> score_symptoms (S @ [s]) 0"
    by (simp add: score_symptoms_snoc)
  have "(of_int (score_symptoms S 0) :: rat) \<le> of_int (score_symptoms (S @ [s]) 0)"
    using le by (simp only: of_int_le_iff)
  moreover have "(of_int (score_symptoms S 0) :: rat) * (3 / 2)
      \<le> of_int (score_symptoms (S @ [s]) 0) * (3 / 2)"
    using le by (simp only: of_int_le_iff mult_le_cancel_right) simp
  ultimately show ?thesis using PStr
    by (simp add: assess_severity_def Let_def score_to_severity_mono)
qed (simp_all add: assess_severity_def)

section \<open>Severity assessment: the algorithm\<close>

lemma score_symptoms_sum: "score_symptoms S acc = acc + sum_list (map symptom_weight S)"
  by (induction S arbitrary: acc)
     (auto simp: symptom_weight_def spec_mentions_def critical_keywords_def)

text \<open>
  C4. The assessed severity is the result of the specification's algorithm: the sum of
  the weights (2 for a symptom that mentions battery, temperature, memory or reboot, 1
  otherwise) times the multiplier (1.5 for a device id that contains critical or
  production, 1 otherwise), clipped at 10, 7, 4 and 2. A snapshot with no device id is
  assessed with the empty id; on one whose device id is no string the code raises
  \<^verbatim>\<open>AttributeError\<close> and assesses nothing.
\<close>

theorem assess_severity_is_spec_algorithm:
  "assess_severity S d =
     (case dict_get d ''device_id'' (PStr '''') of
        PStr dev \<Rightarrow> Inr (spec_severity S dev)
      | v \<Rightarrow> Inl (no_attribute (type_name v) ''lower''))"
proof (cases "dict_get d ''device_id'' (PStr '''')")
  case (PStr dev)
  have "score_to_severity = clip_to_scale"
    by (rule ext) (simp add: score_to_severity_def clip_to_scale_def)
  then show ?thesis using PStr
    by (simp add: assess_severity_def spec_severity_def score_symptoms_sum
        device_criticality_multiplier_def spec_mentions_def)
qed (simp_all add: assess_severity_def)

section \<open>Plan generation: the manual intervention\<close>

lemma plan_low_no_manual:
  "severity_value sev < severity_value CRITICAL \<Longrightarrow>
   \<not> list_ex is_manual (generate_recovery_plan cause sev)"
  by (simp add: generate_recovery_plan_def Let_def mk_step_def is_manual_def)

lemma plan_critical:
  "severity_value sev \<ge> severity_value CRITICAL \<Longrightarrow>
   generate_recovery_plan cause sev =
     generate_recovery_plan cause LOW @
       [manual_step (int (length (generate_recovery_plan cause LOW)) + 1)]"
  by (simp add: generate_recovery_plan_def Let_def manual_step_def)

text \<open>
  C5. For a severity of CRITICAL or above the plan is the plan of the lower severities
  for the same root cause with one MANUAL_INTERVENTION step appended, numbered one past
  its length: the last step is the manual intervention and no earlier step is one. For
  a severity below CRITICAL no step of the plan is a manual intervention. Both hold for
  every root cause, whichever branch built the rest of the plan.
\<close>

theorem plan_manual_intervention:
  "(severity_value sev \<ge> severity_value CRITICAL \<longrightarrow>
      generate_recovery_plan cause sev =
        generate_recovery_plan cause LOW @
          [manual_step (int (length (generate_recovery_plan cause LOW)) + 1)]
      \<and> is_manual (last (generate_recovery_plan cause sev))
      \<and> \<not> list_ex is_manual (butlast (generate_recovery_plan cause sev)))
   \<and> (severity_value sev < severity_value CRITICAL \<longrightarrow>
      \<not> list_ex is_manual (generate_recovery_plan cause sev))"
proof (intro conjI impI)
  assume c: "severity_value sev \<ge> severity_value CRITICAL"
  show eq: "generate_recovery_plan cause sev =
        generate_recovery_plan cause LOW @
          [manual_step (int (length (generate_recovery_plan cause LOW)) + 1)]"
    using c by (rule plan_critical)
  show "is_manual (last (generate_recovery_plan cause sev))"
    by (simp add: eq is_manual_def manual_step_def mk_step_def)
  have "\<not> list_ex is_manual (generate_recovery_plan cause LOW)"
    by (rule plan_low_no_manual) simp
  then show "\<not> list_ex is_manual (butlast (generate_recovery_plan cause sev))"
    by (simp add: eq)
next
  assume "severity_value sev < severity_value CRITICAL"
  then show "\<not> list_ex is_manual (generate_recovery_plan cause sev)"
    by (rule plan_low_no_manual)
qed

lemma battery_cause_lower: "lower ''Battery cell degraded'' = ''battery cell degraded''"
  by code_simp

theorem plan_manual_intervention_witness:
  "severity_value CRITICAL \<ge> severity_value CRITICAL
   \<and> is_manual (last (generate_recovery_plan ''Battery cell degraded'' CRITICAL))
   \<and> length (generate_recovery_plan ''Battery cell degraded'' CRITICAL) = 4
   \<and> severity_value HIGH < severity_value CRITICAL
   \<and> \<not> list_ex is_manual (generate_recovery_plan ''Battery cell degraded'' HIGH)"
  using plan_manual_intervention [of CRITICAL "''Battery cell degraded''"]
        plan_manual_intervention [of HIGH "''Battery cell degraded''"]
  by (simp add: generate_recovery_plan_def Let_def battery_cause_lower manual_step_def
      is_manual_def mk_step_def)

section \<open>Scenario A: a low battery\<close>

lemma at_most_gt: "at_most v (lit_value l) \<Longrightarrow> py_gt v l = Inr False"
  by (cases v) (auto simp: at_most_def)

lemma at_least_lt: "at_least v (lit_value l) \<Longrightarrow> py_lt v l = Inr False"
  by (cases v) (auto simp: at_least_def)

lemma valid_reading_sensor:
  "valid_reading v \<Longrightarrow> (if v = PNone then Inr True else np_isnan v) = Inr False"
  by (cases v) (auto simp: valid_reading_def)

lemma bounded_valid: "at_least v (- 10) \<Longrightarrow> at_most v 50 \<Longrightarrow> valid_reading v"
  by (cases v) (auto simp: at_least_def at_most_def valid_reading_def numpy_integer_def)

lemma dict_get_present: "dict_get d k PNone \<noteq> PNone \<Longrightarrow> dict_get d k dflt = dict_get d k PNone"
  by (auto simp: dict_get_def split: option.splits)

lemma at_least_present: "at_least (dict_get d k PNone) t \<Longrightarrow> dict_get d k dflt = dict_get d k PNone"
  by (rule dict_get_present) (auto simp: at_least_def)

lemma valid_present: "valid_reading (dict_get d k PNone) \<Longrightarrow> dict_get d k dflt = dict_get d k PNone"
  by (rule dict_get_present) (auto simp: valid_reading_def)

lemma scenario_A_symptoms:
  assumes "scenario_A d"
  shows "detect_symptoms fs d = Inr [low_battery_symptom (fs float_3_1)]"
proof -
  let ?t = "dict_get d ''temperature'' PNone"
  from assms have A:
    "d ''battery_voltage'' = Some (PFloat float_3_1)"
    "at_least ?t (- 10)" "at_most ?t 50"
    "valid_reading (dict_get d ''humidity'' PNone)"
    "valid_reading (dict_get d ''pressure'' PNone)"
    "at_most (dict_get d ''memory_usage'' (PInt 0)) 90"
    "at_most (dict_get d ''cpu_usage'' (PInt 0)) 95"
    "at_most (dict_get d ''error_count'' (PInt 0)) 10"
    "at_least (dict_get d ''wifi_signal_strength'' (PInt 0)) (- 80)"
    "at_least (dict_get d ''uptime_hours'' (PInt 0)) (1 / 10)"
    by (simp_all add: scenario_A_def)
  have bv: "dict_get d ''battery_voltage'' (PInt 0) = PFloat float_3_1"
    using A(1) by (simp add: dict_get_def)
  have t0: "dict_get d ''temperature'' (PInt 0) = ?t"
    using A(2) by (rule at_least_present)
  have t1: "py_gt ?t (IntLit 50) = Inr False"
    by (rule at_most_gt) (simp add: A)
  have t1': "py_lt ?t (IntLit (- 10)) = Inr False"
    by (rule at_least_lt) (simp add: A)
  have t2: "(if ?t = PNone then Inr True else np_isnan ?t) = Inr False"
    using A(2,3) by (intro valid_reading_sensor bounded_valid)
  have h: "(if dict_get d ''humidity'' PNone = PNone then Inr True
            else np_isnan (dict_get d ''humidity'' PNone)) = Inr False"
    using A(4) by (rule valid_reading_sensor)
  have p: "(if dict_get d ''pressure'' PNone = PNone then Inr True
            else np_isnan (dict_get d ''pressure'' PNone)) = Inr False"
    using A(5) by (rule valid_reading_sensor)
  have m: "py_gt (dict_get d ''memory_usage'' (PInt 0)) (IntLit 90) = Inr False"
    by (rule at_most_gt) (simp add: A)
  have c: "py_gt (dict_get d ''cpu_usage'' (PInt 0)) (IntLit 95) = Inr False"
    by (rule at_most_gt) (simp add: A)
  have e: "py_gt (dict_get d ''error_count'' (PInt 0)) (IntLit 10) = Inr False"
    by (rule at_most_gt) (simp add: A)
  have w: "py_lt (dict_get d ''wifi_signal_strength'' (PInt 0)) (IntLit (- 80)) = Inr False"
    by (rule at_least_lt) (simp add: A)
  have u: "py_lt (dict_get d ''uptime_hours'' (PInt 0)) (FloatLit (1 / 10)) = Inr False"
    by (rule at_least_lt) (simp add: A)
  show ?thesis
    unfolding detect_symptoms_def Let_def bv t0
    by (simp add: t1 t1' t2 h p m c e w u py_or_def append_if_def bind_exn_def
        low_battery_symptom_def float_3_1_def)
qed

lemma scenario_A_severity:
  assumes "scenario_A d"
  shows "assess_severity [low_battery_symptom volts] d = Inr MEDIUM"
proof -
  obtain dev where dev: "dict_get d ''device_id'' PNone = PStr dev"
      "\<not> is_in ''critical'' (lower dev)" "\<not> is_in ''production'' (lower dev)"
    using assms by (auto simp: scenario_A_def split: pyval.splits)
  have id: "dict_get d ''device_id'' (PStr '''') = PStr dev"
    using dev(1) by (auto simp: dict_get_def split: option.splits)
  have "is_in ''battery'' (lower ''Low battery voltage: '')" by code_simp
  then have "is_in ''battery'' (lower (low_battery_symptom volts))"
    unfolding low_battery_symptom_def lower_append by (rule is_in_append_left)
  then show ?thesis
    using id dev(2,3)
    by (simp add: assess_severity_def critical_keywords_def score_to_severity_def)
qed

lemma battery_plan:
  "is_in ''battery'' (lower cause) \<Longrightarrow>
   list_ex restarts_power_service (generate_recovery_plan cause sev)"
  by (simp add: generate_recovery_plan_def Let_def restarts_power_service_def mk_step_def)

text \<open>
  C6. Scenario A. For every snapshot of a device that is not critical, with a battery
  voltage of 3.1 (the float the literal denotes), valid temperature, humidity and
  pressure readings (a float that is not NaN, or an integer that fits 64 bits) and every
  other metric inside its range, the detector returns exactly one symptom, the low
  battery one; the severity of that symptom for that device is MEDIUM; and for every root cause
  that mentions the battery, at any severity, the plan has a step that restarts the
  power management service (RESTART_SERVICE).
\<close>

theorem scenario_A_low_battery:
  "scenario_A d \<Longrightarrow>
     detect_symptoms fs d = Inr [low_battery_symptom (fs float_3_1)]
     \<and> assess_severity [low_battery_symptom (fs float_3_1)] d = Inr MEDIUM
     \<and> (is_in ''battery'' (lower cause) \<longrightarrow>
          list_ex restarts_power_service (generate_recovery_plan cause sev))"
  by (simp add: scenario_A_symptoms scenario_A_severity battery_plan)

lemma scenario_A_snapshot_ok: "scenario_A scenario_A_snapshot"
  by (simp add: scenario_A_def scenario_A_snapshot_def dict_get_def at_least_def at_most_def
      valid_reading_def lower_def lower_char_def)

theorem scenario_A_low_battery_witness:
  "scenario_A scenario_A_snapshot
   \<and> detect_symptoms (float_str sample_runtime) scenario_A_snapshot = Inr [''Low battery voltage: 3.1V'']
   \<and> assess_severity [''Low battery voltage: 3.1V''] scenario_A_snapshot = Inr MEDIUM
   \<and> is_in ''battery'' (lower ''Battery cell degraded'')
   \<and> list_ex restarts_power_service (generate_recovery_plan ''Battery cell degraded'' MEDIUM)"
  using scenario_A_low_battery [of scenario_A_snapshot "float_str sample_runtime"
      "''Battery cell degraded''" MEDIUM] scenario_A_snapshot_ok
  by (simp add: sample_runtime_def low_battery_symptom_def battery_cause_lower)

section \<open>Computations: how they run\<close>

lemma ret_run: "ret x s = (Inr x, s)"
  by (simp add: ret_def)

lemma lift_exn_run: "lift_exn r s = (r, s)"
  by (simp add: lift_exn_def)

lemma call_run: "call ev f t = (f t, t @ [ev])"
  by (simp add: call_def)

lemma and_then_Inr: "m s = (Inr x, s1) \<Longrightarrow> and_then m f s = f x s1"
  by (simp add: and_then_def)

lemma and_then_Inl: "m s = (Inl e, s1) \<Longrightarrow> and_then m f s = (Inl e, s1)"
  by (simp add: and_then_def)

lemma and_then_returns:
  "and_then m f s = (Inr y, s') \<Longrightarrow> \<exists>x s1. m s = (Inr x, s1) \<and> f x s1 = (Inr y, s')"
  by (auto simp: and_then_def split: prod.splits sum.splits)

lemma try_except_Inr: "m s = (Inr x, s1) \<Longrightarrow> try_except m h s = (Inr x, s1)"
  by (simp add: try_except_def)

lemma try_except_Inl: "m s = (Inl e, s1) \<Longrightarrow> try_except m h s = h e s1"
  by (simp add: try_except_def)

section \<open>Root cause analysis and the fallback plan\<close>

lemma analyze_root_cause_run:
  "analyze_root_cause caps syms d t =
     (Inr (case openai_chat caps t syms d of Inl e \<Rightarrow> fallback_cause | Inr content \<Rightarrow> strip content),
      t @ [EvOpenAI])"
  by (simp add: analyze_root_cause_def try_except_def and_then_def call_def ret_def
      split: sum.splits)

lemma fallback_no_rule:
  "\<not> is_in ''battery'' (lower fallback_cause)" "\<not> is_in ''temperature'' (lower fallback_cause)"
  "\<not> is_in ''memory'' (lower fallback_cause)" "\<not> is_in ''cpu'' (lower fallback_cause)"
  "\<not> is_in ''reboot'' (lower fallback_cause)" "\<not> is_in ''crash'' (lower fallback_cause)"
  "\<not> is_in ''wifi'' (lower fallback_cause)" "\<not> is_in ''network'' (lower fallback_cause)"
  by code_simp+

lemma fallback_plan:
  "generate_recovery_plan fallback_cause sev =
     (if severity_value sev \<ge> severity_value CRITICAL then [diagnostic_step, manual_step 2]
      else [diagnostic_step])"
  by (simp add: generate_recovery_plan_def Let_def fallback_no_rule diagnostic_step_def
      manual_step_def)

lemma plan_starts_with_diagnostic:
  "generate_recovery_plan cause sev \<noteq> [] \<and> hd (generate_recovery_plan cause sev) = diagnostic_step"
  by (simp add: generate_recovery_plan_def Let_def diagnostic_step_def)

text \<open>
  C7 as the specification states it fails: the plan for the fallback cause of an
  incident of LOW severity is the diagnostic step alone, with no manual intervention.
\<close>

theorem fallback_plan_counterexample:
  "generate_recovery_plan fallback_cause LOW = [diagnostic_step]
   \<and> \<not> list_ex is_manual (generate_recovery_plan fallback_cause LOW)"
  by (simp add: fallback_plan diagnostic_step_def is_manual_def mk_step_def)

text \<open>
  C7, as the code has it. When the model call fails, the analyzer returns its fixed
  sentence, and that sentence matches no targeted rule, so the plan for it is generic:
  the diagnostic step alone when the severity is below CRITICAL, and the diagnostic
  step followed by the manual intervention when it is CRITICAL or above. For every root
  cause and severity the plan starts with the diagnostic step, so it is never empty.
\<close>

theorem fallback_plan_generic:
  "(openai_chat caps t syms d = Inl e \<longrightarrow>
      analyze_root_cause caps syms d t = (Inr fallback_cause, t @ [EvOpenAI]))
   \<and> generate_recovery_plan fallback_cause sev =
       (if severity_value sev \<ge> severity_value CRITICAL then [diagnostic_step, manual_step 2]
        else [diagnostic_step])
   \<and> generate_recovery_plan cause sev \<noteq> []
   \<and> hd (generate_recovery_plan cause sev) = diagnostic_step"
  by (simp add: analyze_root_cause_run fallback_plan plan_starts_with_diagnostic)

theorem fallback_plan_generic_witness:
  "openai_chat (sample_detection_caps\<lparr>openai_chat := \<lambda>t syms d. Inl (Raised ''timeout'')\<rparr>)
       [] [''Low battery voltage: 3.1V''] scenario_A_snapshot = Inl (Raised ''timeout'')
   \<and> analyze_root_cause (sample_detection_caps\<lparr>openai_chat := \<lambda>t syms d. Inl (Raised ''timeout'')\<rparr>)
       [''Low battery voltage: 3.1V''] scenario_A_snapshot [] = (Inr fallback_cause, [EvOpenAI])
   \<and> generate_recovery_plan fallback_cause HIGH = [diagnostic_step]
   \<and> generate_recovery_plan fallback_cause CRITICAL = [diagnostic_step, manual_step 2]"
  using fallback_plan_generic [of "sample_detection_caps\<lparr>openai_chat := \<lambda>t syms d. Inl (Raised ''timeout'')\<rparr>"
      "[]" "[''Low battery voltage: 3.1V'']" scenario_A_snapshot "Raised ''timeout''" HIGH]
    fallback_plan_generic [of sample_detection_caps "[]" "[]" scenario_A_snapshot "Raised ''timeout''" CRITICAL]
  by (simp add: sample_detection_caps_def)

section \<open>Symptom detection: absent metrics\<close>

lemma bind_exn_returns: "bind_exn m f = Inr y \<Longrightarrow> \<exists>x. m = Inr x \<and> f x = Inr y"
  by (cases m) (auto simp: bind_exn_def)

lemma bind_exn_InrE:
  assumes "bind_exn m f = Inr y"
  obtains x where "m = Inr x" and "f x = Inr y"
  using assms by (cases m) (auto simp: bind_exn_def)

lemma append_if_grows: "append_if c msg s = Inr s' \<Longrightarrow> set s \<subseteq> set s'"
  by (cases c) (auto simp: append_if_def split: if_splits)

lemma append_if_True: "append_if (Inr True) msg s = Inr (s @ [msg])"
  by (simp add: append_if_def)

lemma check_sensors_grows: "check_sensors fs sd s = Inr s' \<Longrightarrow> set s \<subseteq> set s'"
proof (induction sd arbitrary: s)
  case Nil
  then show ?case by simp
next
  case (Cons a sd)
  obtain sensor v where a: "a = (sensor, v)" by (cases a)
  from Cons.prems obtain s1 where
    s1: "append_if (if v = PNone then Inr True else np_isnan v)
           (''Invalid '' @ sensor @ '' reading: '' @ py_str fs v) s = Inr s1"
    and rest: "check_sensors fs sd s1 = Inr s'"
    unfolding a check_sensors.simps by (blast dest: bind_exn_returns)
  from append_if_grows [OF s1] Cons.IH [OF rest] show ?case by blast
qed

lemma check_sensors_missing:
  "check_sensors fs sd s = Inr s' \<Longrightarrow> (sensor, PNone) \<in> set sd \<Longrightarrow>
   invalid_reading_symptom sensor \<in> set s'"
proof (induction sd arbitrary: s)
  case Nil
  then show ?case by simp
next
  case (Cons a sd)
  obtain sn v where a: "a = (sn, v)" by (cases a)
  from Cons.prems(1) obtain s1 where
    s1: "append_if (if v = PNone then Inr True else np_isnan v)
           (''Invalid '' @ sn @ '' reading: '' @ py_str fs v) s = Inr s1"
    and rest: "check_sensors fs sd s1 = Inr s'"
    unfolding a check_sensors.simps by (blast dest: bind_exn_returns)
  show ?case
  proof (cases "(sensor, PNone) = a")
    case True
    then have "s1 = s @ [invalid_reading_symptom sensor]"
      using s1 a by (simp add: append_if_def invalid_reading_symptom_def)
    then have "invalid_reading_symptom sensor \<in> set s1" by simp
    then show ?thesis using check_sensors_grows [OF rest] by blast
  next
    case False
    then have "(sensor, PNone) \<in> set sd" using Cons.prems(2) by auto
    then show ?thesis using Cons.IH [OF rest] by blast
  qed
qed

lemma dict_get_missing: "d k = None \<Longrightarrow> dict_get d k dflt = dflt"
  by (simp add: dict_get_def)

lemma zero_int_str: "int_str 0 = ''0''"
  by (simp add: int_str_def nat_str.simps)

lemma detect_symptoms_missing:
  assumes bv: "d ''battery_voltage'' = None" and up: "d ''uptime_hours'' = None"
    and run: "detect_symptoms fs d = Inr syms"
  shows "''Low battery voltage: 0V'' \<in> set syms"
    and "''Frequent reboots detected: uptime 0h'' \<in> set syms"
    and "d ''temperature'' = None \<Longrightarrow> invalid_reading_symptom ''temperature'' \<in> set syms"
    and "d ''humidity'' = None \<Longrightarrow> invalid_reading_symptom ''humidity'' \<in> set syms"
    and "d ''pressure'' = None \<Longrightarrow> invalid_reading_symptom ''pressure'' \<in> set syms"
proof -
  let ?sd = "[(''temperature'', dict_get d ''temperature'' PNone),
              (''humidity'', dict_get d ''humidity'' PNone),
              (''pressure'', dict_get d ''pressure'' PNone)]"
  have bv0: "dict_get d ''battery_voltage'' (PInt 0) = PInt 0"
    using bv by (simp add: dict_get_def)
  have up0: "dict_get d ''uptime_hours'' (PInt 0) = PInt 0"
    using up by (simp add: dict_get_def)
  from run obtain s1 s2 s3 s4 s5 s6 s7 where
    a1: "append_if (py_lt (PInt 0) (FloatLit (16 / 5)))
           (''Low battery voltage: '' @ py_str fs (PInt 0) @ ''V'') [] = Inr s1"
    and a2: "append_if (py_or (py_gt (dict_get d ''temperature'' (PInt 0)) (IntLit 50))
               (py_lt (dict_get d ''temperature'' (PInt 0)) (IntLit (- 10))))
           (''Extreme temperature: '' @ py_str fs (dict_get d ''temperature'' (PInt 0)) @ degrees_C) s1 = Inr s2"
    and a3: "append_if (py_gt (dict_get d ''memory_usage'' (PInt 0)) (IntLit 90))
           (''High memory usage: '' @ py_str fs (dict_get d ''memory_usage'' (PInt 0)) @ ''%'') s2 = Inr s3"
    and a4: "append_if (py_gt (dict_get d ''cpu_usage'' (PInt 0)) (IntLit 95))
           (''High CPU usage: '' @ py_str fs (dict_get d ''cpu_usage'' (PInt 0)) @ ''%'') s3 = Inr s4"
    and a5: "append_if (py_gt (dict_get d ''error_count'' (PInt 0)) (IntLit 10))
           (''High error count: '' @ py_str fs (dict_get d ''error_count'' (PInt 0))) s4 = Inr s5"
    and a6: "append_if (py_lt (dict_get d ''wifi_signal_strength'' (PInt 0)) (IntLit (- 80)))
           (''Weak WiFi signal: '' @ py_str fs (dict_get d ''wifi_signal_strength'' (PInt 0)) @ ''dBm'') s5 = Inr s6"
    and a7: "append_if (py_lt (PInt 0) (FloatLit (1 / 10)))
           (''Frequent reboots detected: uptime '' @ py_str fs (PInt 0) @ ''h'') s6 = Inr s7"
    and a8: "check_sensors fs ?sd s7 = Inr syms"
    unfolding detect_symptoms_def Let_def bv0 up0
    by (elim bind_exn_InrE) (rule that; assumption)
  have "s1 = [''Low battery voltage: 0V'']"
    using a1 by (simp add: append_if_def zero_int_str)
  then have "''Low battery voltage: 0V'' \<in> set s1" by simp
  then show "''Low battery voltage: 0V'' \<in> set syms"
    using append_if_grows [OF a2] append_if_grows [OF a3] append_if_grows [OF a4]
      append_if_grows [OF a5] append_if_grows [OF a6] append_if_grows [OF a7]
      check_sensors_grows [OF a8] by blast
  have "s7 = s6 @ [''Frequent reboots detected: uptime 0h'']"
    using a7 by (simp add: append_if_def zero_int_str)
  then have "''Frequent reboots detected: uptime 0h'' \<in> set s7" by simp
  then show "''Frequent reboots detected: uptime 0h'' \<in> set syms"
    using check_sensors_grows [OF a8] by blast
  show "invalid_reading_symptom ''temperature'' \<in> set syms" if "d ''temperature'' = None"
    using that by (intro check_sensors_missing [OF a8]) (simp add: dict_get_def)
  show "invalid_reading_symptom ''humidity'' \<in> set syms" if "d ''humidity'' = None"
    using that by (intro check_sensors_missing [OF a8]) (simp add: dict_get_def)
  show "invalid_reading_symptom ''pressure'' \<in> set syms" if "d ''pressure'' = None"
    using that by (intro check_sensors_missing [OF a8]) (simp add: dict_get_def)
qed

lemma numeric_lt: "numeric_or_missing d k \<Longrightarrow> \<exists>b. py_lt (dict_get d k (PInt 0)) l = Inr b"
  by (auto simp: numeric_or_missing_def dict_get_def split: option.splits pyval.splits)

lemma numeric_gt: "numeric_or_missing d k \<Longrightarrow> \<exists>b. py_gt (dict_get d k (PInt 0)) l = Inr b"
  by (auto simp: numeric_or_missing_def dict_get_def split: option.splits pyval.splits)

lemma numeric_sensor:
  "checkable d k \<Longrightarrow>
   \<exists>b. (if dict_get d k PNone = PNone then Inr True else np_isnan (dict_get d k PNone)) = Inr b"
  by (auto simp: checkable_def dict_get_def split: option.splits pyval.splits)

lemma append_if_Inr: "\<exists>s'. append_if (Inr b) msg s = Inr s'"
  by (simp add: append_if_def)

lemma detect_symptoms_numeric:
  assumes "numeric_metrics d"
  shows "\<exists>syms. detect_symptoms fs d = Inr syms"
proof -
  from assms have n:
    "numeric_or_missing d ''battery_voltage''" "numeric_or_missing d ''temperature''"
    "numeric_or_missing d ''memory_usage''" "numeric_or_missing d ''cpu_usage''"
    "numeric_or_missing d ''error_count''" "numeric_or_missing d ''wifi_signal_strength''"
    "numeric_or_missing d ''uptime_hours''" "checkable d ''temperature''"
    "checkable d ''humidity''" "checkable d ''pressure''"
    by (simp_all add: numeric_metrics_def metric_keys_def sensor_keys_def)
  obtain b1 where b1: "py_lt (dict_get d ''battery_voltage'' (PInt 0)) (FloatLit (16 / 5)) = Inr b1"
    using numeric_lt [OF n(1)] by blast
  obtain b2 where b2: "py_gt (dict_get d ''temperature'' (PInt 0)) (IntLit 50) = Inr b2"
    using numeric_gt [OF n(2)] by blast
  obtain b2' where b2': "py_lt (dict_get d ''temperature'' (PInt 0)) (IntLit (- 10)) = Inr b2'"
    using numeric_lt [OF n(2)] by blast
  obtain b3 where b3: "py_gt (dict_get d ''memory_usage'' (PInt 0)) (IntLit 90) = Inr b3"
    using numeric_gt [OF n(3)] by blast
  obtain b4 where b4: "py_gt (dict_get d ''cpu_usage'' (PInt 0)) (IntLit 95) = Inr b4"
    using numeric_gt [OF n(4)] by blast
  obtain b5 where b5: "py_gt (dict_get d ''error_count'' (PInt 0)) (IntLit 10) = Inr b5"
    using numeric_gt [OF n(5)] by blast
  obtain b6 where b6: "py_lt (dict_get d ''wifi_signal_strength'' (PInt 0)) (IntLit (- 80)) = Inr b6"
    using numeric_lt [OF n(6)] by blast
  obtain b7 where b7: "py_lt (dict_get d ''uptime_hours'' (PInt 0)) (FloatLit (1 / 10)) = Inr b7"
    using numeric_lt [OF n(7)] by blast
  obtain c1 where c1: "(if dict_get d ''temperature'' PNone = PNone then Inr True
      else np_isnan (dict_get d ''temperature'' PNone)) = Inr c1"
    using numeric_sensor [OF n(8)] by blast
  obtain c2 where c2: "(if dict_get d ''humidity'' PNone = PNone then Inr True
      else np_isnan (dict_get d ''humidity'' PNone)) = Inr c2"
    using numeric_sensor [OF n(9)] by blast
  obtain c3 where c3: "(if dict_get d ''pressure'' PNone = PNone then Inr True
      else np_isnan (dict_get d ''pressure'' PNone)) = Inr c3"
    using numeric_sensor [OF n(10)] by blast
  show ?thesis
    unfolding detect_symptoms_def Let_def check_sensors.simps b1 b2 b2' b3 b4 b5 b6 b7 c1 c2 c3
    by (simp add: append_if_def bind_exn_def py_or_def)
qed

lemma only_device_id_symptoms:
  "detect_symptoms fs (only_device_id dev) =
     Inr [''Low battery voltage: 0V'', ''Frequent reboots detected: uptime 0h'',
          invalid_reading_symptom ''temperature'', invalid_reading_symptom ''humidity'',
          invalid_reading_symptom ''pressure'']"
  by (simp add: detect_symptoms_def only_device_id_def dict_get_def append_if_def bind_exn_def
      py_or_def zero_int_str invalid_reading_symptom_def)

section \<open>Incident detection: the cases\<close>

lemma detect_incident_no_device:
  "\<not> truthy (dict_get d ''device_id'' PNone) \<Longrightarrow> detect_incident rt caps d t = (Inr None, t)"
  by (simp add: detect_incident_def ret_def)

lemma detect_incident_no_symptoms:
  "truthy (dict_get d ''device_id'' PNone) \<Longrightarrow> detect_symptoms (float_str rt) d = Inr [] \<Longrightarrow>
   detect_incident rt caps d t = (Inr None, t)"
  by (simp add: detect_incident_def ret_def and_then_def lift_exn_def)

lemma detect_incident_detection_raises:
  "truthy (dict_get d ''device_id'' PNone) \<Longrightarrow> detect_symptoms (float_str rt) d = Inl e \<Longrightarrow>
   detect_incident rt caps d t = (Inl e, t)"
  by (simp add: detect_incident_def and_then_def lift_exn_def)

lemma dict_get_PStr: "dict_get d k PNone = PStr s \<Longrightarrow> d k = Some (PStr s)"
  by (auto simp: dict_get_def split: option.splits)

lemma assess_severity_returns:
  "assess_severity syms d = Inr sev \<Longrightarrow> truthy (dict_get d ''device_id'' PNone) \<Longrightarrow>
   \<exists>dev. dict_get d ''device_id'' PNone = PStr dev"
  by (auto simp: assess_severity_def dict_get_def Let_def split: option.splits pyval.splits)

lemma detect_incident_with_symptoms:
  assumes id: "truthy (dict_get d ''device_id'' PNone)"
    and det: "detect_symptoms (float_str rt) d = Inr syms" and ne: "syms \<noteq> []"
  shows "fst (detect_incident rt caps d t) \<noteq> Inr None"
    and "fst (detect_incident rt caps d t) = Inr (Some inc) \<Longrightarrow>
         symptoms inc = syms \<and> d ''device_id'' = Some (PStr (device_id inc))
         \<and> EvRecordIncident (incident_id inc) \<in> set (snd (detect_incident rt caps d t))"
proof -
  show "fst (detect_incident rt caps d t) \<noteq> Inr None"
    using id det ne
    by (auto simp: detect_incident_def and_then_def lift_exn_def call_def ret_def Let_def
        analyze_root_cause_run split: sum.splits prod.splits if_splits)
  assume r: "fst (detect_incident rt caps d t) = Inr (Some inc)"
  then obtain sev where sev: "assess_severity syms d = Inr sev"
    using id det ne
    by (cases "assess_severity syms d")
       (auto simp: detect_incident_def and_then_def lift_exn_def)
  then obtain dev where dev: "dict_get d ''device_id'' PNone = PStr dev"
    using assess_severity_returns id by blast
  show "symptoms inc = syms \<and> d ''device_id'' = Some (PStr (device_id inc))
         \<and> EvRecordIncident (incident_id inc) \<in> set (snd (detect_incident rt caps d t))"
    using r id det ne sev dev dict_get_PStr [OF dev]
    by (auto simp: detect_incident_def and_then_def lift_exn_def call_def ret_def Let_def
        analyze_root_cause_run split: sum.splits prod.splits if_splits)
qed

lemma detect_incident_returns_report:
  assumes id: "d ''device_id'' = Some (PStr dev)" and dev: "dev \<noteq> []"
    and det: "detect_symptoms (float_str rt) d = Inr syms" and ne: "syms \<noteq> []"
    and h: "helpers_return caps"
  shows "\<exists>inc. fst (detect_incident rt caps d t) = Inr (Some inc)"
proof -
  have g: "dict_get d ''device_id'' PNone = PStr dev" "dict_get d ''device_id'' (PStr []) = PStr dev"
    using id by (simp_all add: dict_get_def)
  obtain sev where sev: "assess_severity syms d = Inr sev"
    using g by (simp add: assess_severity_def Let_def)
  show ?thesis
    using g dev det ne sev h
    by (auto simp: detect_incident_def and_then_def lift_exn_def call_def ret_def Let_def
        analyze_root_cause_run helpers_return_def split: sum.splits prod.splits if_splits)
qed


lemma analyze_root_cause_cause:
  "analyze_root_cause caps syms d t = (Inr (analyzed_cause caps syms d t), t @ [EvOpenAI])"
  by (simp add: analyze_root_cause_run analyzed_cause_def)

text \<open>What \<^verbatim>\<open>detect_incident\<close> does once the device id and the symptoms are there.\<close>

lemma detect_incident_run:
  assumes id: "d ''device_id'' = Some (PStr dev)" and dev: "dev \<noteq> []"
    and det: "detect_symptoms (float_str rt) d = Inr syms" and ne: "syms \<noteq> []"
    and sev: "assess_severity syms d = Inr sev"
  shows "detect_incident rt caps d t =
    (case assess_business_impact caps (calls_made t dev 1) dev sev of
       Inl e \<Rightarrow> (Inl e, calls_made t dev 2)
     | Inr impact \<Rightarrow>
    (case identify_stakeholders caps (calls_made t dev 2) dev sev of
       Inl e \<Rightarrow> (Inl e, calls_made t dev 3)
     | Inr holders \<Rightarrow>
    (case classify_incident_type caps (calls_made t dev 4) syms of
       Inl e \<Rightarrow> (Inl e, calls_made t dev 5)
     | Inr kind \<Rightarrow>
    (case estimate_recovery_time caps (calls_made t dev 6)
            (generate_recovery_plan (analyzed_cause caps syms d t) sev) of
       Inl e \<Rightarrow> (Inl e, calls_made t dev 7)
     | Inr eta \<Rightarrow>
    (let incident =
       \<lparr>incident_id = ''INC-'' @ stamp (now rt (calls_made t dev 3)) @ ''-'' @ dev,
        device_id = dev, incident_type = kind, severity = sev,
        detection_time = now rt (calls_made t dev 5), symptoms = syms,
        root_cause = Some (analyzed_cause caps syms d t),
        recovery_plan = generate_recovery_plan (analyzed_cause caps syms d t) sev,
        estimated_recovery_time = eta, business_impact = impact, stakeholders = holders\<rparr>;
         recorded = calls_made t dev 7 @ [EvRecordIncident (incident_id incident)]
     in
     case record_incident caps (calls_made t dev 7) incident of
       Inl e \<Rightarrow> (Inl e, recorded)
     | Inr u \<Rightarrow>
         if alert_due incident then
           (case send_immediate_alert caps recorded incident of
              Inl e \<Rightarrow> (Inl e, recorded @ [EvImmediateAlert (incident_id incident)])
            | Inr u \<Rightarrow> (Inr (Some incident), recorded @ [EvImmediateAlert (incident_id incident)]))
         else (Inr (Some incident), recorded))))))"
proof -
  have g: "dict_get d ''device_id'' PNone = PStr dev"
    using id by (simp add: dict_get_def)
  show ?thesis
    using g dev det ne sev
    by (simp add: detect_incident_def and_then_def lift_exn_def call_def ret_def Let_def
        analyze_root_cause_cause calls_made_def alert_due_def split: sum.splits)
qed


lemma detect_incident_assessment_raises:
  "truthy (dict_get d ''device_id'' PNone) \<Longrightarrow> detect_symptoms (float_str rt) d = Inr syms \<Longrightarrow>
   syms \<noteq> [] \<Longrightarrow> assess_severity syms d = Inl e \<Longrightarrow>
   detect_incident rt caps d t = (Inl e, t)"
  by (simp add: detect_incident_def and_then_def lift_exn_def)

lemma detected_not_None:
  assumes "detected rt caps d t inc"
  shows "truthy (dict_get d ''device_id'' PNone)" "detect_symptoms (float_str rt) d \<noteq> Inr []"
  using assms by (auto simp: detected_def dict_get_def)

lemma detect_incident_cases:
  obtains (noid) "\<not> truthy (dict_get d ''device_id'' PNone)"
  | (raises) e where "truthy (dict_get d ''device_id'' PNone)"
      "detect_symptoms (float_str rt) d = Inl e"
  | (healthy) "truthy (dict_get d ''device_id'' PNone)"
      "detect_symptoms (float_str rt) d = Inr []"
  | (unassessed) ss e where "truthy (dict_get d ''device_id'' PNone)"
      "detect_symptoms (float_str rt) d = Inr ss" "ss \<noteq> []" "assess_severity ss d = Inl e"
  | (run) dev ss sev where "d ''device_id'' = Some (PStr dev)" "dev \<noteq> []"
      "detect_symptoms (float_str rt) d = Inr ss" "ss \<noteq> []" "assess_severity ss d = Inr sev"
proof (cases "truthy (dict_get d ''device_id'' PNone)")
  case False
  then show ?thesis by (rule noid)
next
  case id: True
  show ?thesis
  proof (cases "detect_symptoms (float_str rt) d")
    case (Inl e)
    with id show ?thesis by (rule raises)
  next
    case (Inr ss)
    show ?thesis
    proof (cases "ss = []")
      case True
      with id Inr show ?thesis by (auto intro: healthy)
    next
      case ne: False
      show ?thesis
      proof (cases "assess_severity ss d")
        case (Inl e)
        with id Inr ne show ?thesis by (rule unassessed)
      next
        case sev: (Inr sev)
        then obtain dev where dev: "dict_get d ''device_id'' PNone = PStr dev"
          using assess_severity_returns id by blast
        with id have "dev \<noteq> []" by simp
        with dict_get_PStr [OF dev] show ?thesis using Inr ne sev by (rule run)
      qed
    qed
  qed
qed

lemma detect_incident_report:
  "fst (detect_incident rt caps d t) = Inr (Some inc) \<longleftrightarrow>
     detected rt caps d t inc \<and> helper_calls_returned caps t inc"
proof (cases rule: detect_incident_cases [where d = d and rt = rt])
  case noid
  then show ?thesis
    using detected_not_None(1) [of rt caps d t inc] by (auto simp: detect_incident_no_device)
next
  case (raises e)
  then show ?thesis
    by (auto simp: detect_incident_detection_raises detected_def)
next
  case healthy
  then show ?thesis
    by (auto simp: detect_incident_no_symptoms detected_def)
next
  case (unassessed ss e)
  then show ?thesis
    by (auto simp: detect_incident_assessment_raises detected_def)
next
  case (run dev ss sev)
  show ?thesis
    unfolding detect_incident_run [OF run]
    using run
    by (cases inc)
       (auto simp: detected_def helper_calls_returned_def Let_def alert_due_def
          split: sum.splits if_splits)
qed


lemma detect_incident_None:
  "fst (detect_incident rt caps d t) = Inr None \<longleftrightarrow>
     \<not> truthy (dict_get d ''device_id'' PNone) \<or> detect_symptoms (float_str rt) d = Inr []"
proof (cases rule: detect_incident_cases [where d = d and rt = rt])
  case (run dev ss sev)
  then have "truthy (dict_get d ''device_id'' PNone)" by (simp add: dict_get_def)
  from detect_incident_with_symptoms(1) [OF this run(3,4), of caps t] run this
  show ?thesis by simp
qed (simp_all add: detect_incident_no_device detect_incident_detection_raises
      detect_incident_no_symptoms detect_incident_assessment_raises)

lemma detect_incident_None_trace:
  "fst (detect_incident rt caps d t) = Inr None \<Longrightarrow> snd (detect_incident rt caps d t) = t"
  unfolding detect_incident_None
  by (cases "truthy (dict_get d ''device_id'' PNone)")
     (auto simp: detect_incident_no_device detect_incident_no_symptoms)

lemma detected_run:
  assumes "detected rt caps d t inc"
  shows "detect_incident rt caps d t =
    (case assess_business_impact caps (calls_made t (device_id inc) 1) (device_id inc) (severity inc) of
       Inl e \<Rightarrow> (Inl e, calls_made t (device_id inc) 2)
     | Inr impact \<Rightarrow>
    (case identify_stakeholders caps (calls_made t (device_id inc) 2) (device_id inc) (severity inc) of
       Inl e \<Rightarrow> (Inl e, calls_made t (device_id inc) 3)
     | Inr holders \<Rightarrow>
    (case classify_incident_type caps (calls_made t (device_id inc) 4) (symptoms inc) of
       Inl e \<Rightarrow> (Inl e, calls_made t (device_id inc) 5)
     | Inr kind \<Rightarrow>
    (case estimate_recovery_time caps (calls_made t (device_id inc) 6) (recovery_plan inc) of
       Inl e \<Rightarrow> (Inl e, calls_made t (device_id inc) 7)
     | Inr eta \<Rightarrow>
    (let incident = inc\<lparr>incident_type := kind, estimated_recovery_time := eta,
           business_impact := impact, stakeholders := holders\<rparr>;
         recorded = calls_made t (device_id inc) 7 @ [EvRecordIncident (incident_id inc)]
     in
     case record_incident caps (calls_made t (device_id inc) 7) incident of
       Inl e \<Rightarrow> (Inl e, recorded)
     | Inr u \<Rightarrow>
         if alert_due inc then
           (case send_immediate_alert caps recorded incident of
              Inl e \<Rightarrow> (Inl e, recorded @ [EvImmediateAlert (incident_id inc)])
            | Inr u \<Rightarrow> (Inr (Some incident), recorded @ [EvImmediateAlert (incident_id inc)]))
         else (Inr (Some incident), recorded))))))"
proof -
  from assms have a: "d ''device_id'' = Some (PStr (device_id inc))" "device_id inc \<noteq> []"
    "detect_symptoms (float_str rt) d = Inr (symptoms inc)" "symptoms inc \<noteq> []"
    "assess_severity (symptoms inc) d = Inr (severity inc)"
    by (simp_all add: detected_def)
  from assms have b: "root_cause inc = Some (analyzed_cause caps (symptoms inc) d t)"
    "recovery_plan inc = generate_recovery_plan (analyzed_cause caps (symptoms inc) d t) (severity inc)"
    "incident_id inc =
       ''INC-'' @ stamp (now rt (calls_made t (device_id inc) 3)) @ ''-'' @ device_id inc"
    "detection_time inc = now rt (calls_made t (device_id inc) 5)"
    by (simp_all add: detected_def)
  show ?thesis
    unfolding detect_incident_run [OF a] b(2) [symmetric]
    using b
    by (cases inc) (simp add: Let_def alert_due_def split: sum.splits)
qed

lemma helper_exception_propagates:
  assumes "detected rt caps d t inc"
  shows
   "(assess_business_impact caps (calls_made t (device_id inc) 1) (device_id inc) (severity inc)
       = Inl e \<longrightarrow> fst (detect_incident rt caps d t) = Inl e)
    \<and> (assess_business_impact caps (calls_made t (device_id inc) 1) (device_id inc) (severity inc)
       = Inr (business_impact inc) \<longrightarrow>
      (identify_stakeholders caps (calls_made t (device_id inc) 2) (device_id inc) (severity inc)
         = Inl e \<longrightarrow> fst (detect_incident rt caps d t) = Inl e)
      \<and> (identify_stakeholders caps (calls_made t (device_id inc) 2) (device_id inc) (severity inc)
         = Inr (stakeholders inc) \<longrightarrow>
        (classify_incident_type caps (calls_made t (device_id inc) 4) (symptoms inc)
           = Inl e \<longrightarrow> fst (detect_incident rt caps d t) = Inl e)
        \<and> (classify_incident_type caps (calls_made t (device_id inc) 4) (symptoms inc)
           = Inr (incident_type inc) \<longrightarrow>
          (estimate_recovery_time caps (calls_made t (device_id inc) 6) (recovery_plan inc)
             = Inl e \<longrightarrow> fst (detect_incident rt caps d t) = Inl e)
          \<and> (estimate_recovery_time caps (calls_made t (device_id inc) 6) (recovery_plan inc)
             = Inr (estimated_recovery_time inc) \<longrightarrow>
            (record_incident caps (calls_made t (device_id inc) 7) inc
               = Inl e \<longrightarrow> fst (detect_incident rt caps d t) = Inl e)
            \<and> (record_incident caps (calls_made t (device_id inc) 7) inc = Inr ()
                 \<and> alert_due inc
                 \<and> send_immediate_alert caps
                     (calls_made t (device_id inc) 7 @ [EvRecordIncident (incident_id inc)]) inc
                     = Inl e \<longrightarrow>
               fst (detect_incident rt caps d t) = Inl e)))))"
  unfolding detected_run [OF assms]
  by (simp add: Let_def)

lemma detect_incident_report_trace:
  assumes "fst (detect_incident rt caps d t) = Inr (Some inc)"
  shows "snd (detect_incident rt caps d t) =
     calls_made t (device_id inc) 7 @ EvRecordIncident (incident_id inc) #
       (if alert_due inc then [EvImmediateAlert (incident_id inc)] else [])"
proof -
  from assms have d: "detected rt caps d t inc" and h: "helper_calls_returned caps t inc"
    by (simp_all add: detect_incident_report)
  from h show ?thesis
    unfolding detected_run [OF d]
    by (simp add: helper_calls_returned_def Let_def)
qed


section \<open>Incident detection: what it returns\<close>

text \<open>
  C9, as the code has it. \<^verbatim>\<open>detect_incident\<close> returns \<^verbatim>\<open>None\<close> exactly when the
  snapshot has no device id (the key is absent, or its value is \<^verbatim>\<open>None\<close>, empty or
  zero) or symptom detection returns the empty list, and then it has made no call:
  nothing is recorded and no alert is sent. It returns a report exactly when the device
  id is a non-empty string, detection returns a non-empty list and every helper call it
  makes returns: the report's device id is the snapshot's, its symptoms are the detected
  ones, its other fields are what the assessment, the analysis, the planner, the clock
  and the helpers returned, the call that records it has returned, and so has the
  immediate alert when the severity is CRITICAL or above; the calls it has then made are
  the seven before the record, the record and, where due, the alert. Nothing in it
  catches an exception: when symptom detection or the severity assessment raises, it
  raises that exception and has made no call, and when a helper call raises after the
  calls before it returned, it raises the helper's exception. In particular it
  returns a report whenever the device id is a non-empty string, detection returns a
  non-empty list and none of the six helper methods ever raises.
\<close>

theorem detect_incident_outcomes:
  "(fst (detect_incident rt caps d t) = Inr None \<longleftrightarrow>
      \<not> truthy (dict_get d ''device_id'' PNone) \<or> detect_symptoms (float_str rt) d = Inr [])
   \<and> (fst (detect_incident rt caps d t) = Inr None \<longrightarrow> snd (detect_incident rt caps d t) = t)
   \<and> (fst (detect_incident rt caps d t) = Inr (Some inc) \<longleftrightarrow>
        detected rt caps d t inc \<and> helper_calls_returned caps t inc)
   \<and> (fst (detect_incident rt caps d t) = Inr (Some inc) \<longrightarrow>
        snd (detect_incident rt caps d t) =
          calls_made t (device_id inc) 7 @ EvRecordIncident (incident_id inc) #
            (if alert_due inc then [EvImmediateAlert (incident_id inc)] else []))
   \<and> (truthy (dict_get d ''device_id'' PNone) \<and> detect_symptoms (float_str rt) d = Inl e \<longrightarrow>
        detect_incident rt caps d t = (Inl e, t))
   \<and> (truthy (dict_get d ''device_id'' PNone) \<and> detect_symptoms (float_str rt) d = Inr syms
        \<and> syms \<noteq> [] \<and> assess_severity syms d = Inl e \<longrightarrow>
        detect_incident rt caps d t = (Inl e, t))
   \<and> (detected rt caps d t inc \<longrightarrow>
        (assess_business_impact caps (calls_made t (device_id inc) 1) (device_id inc) (severity inc)
           = Inl e \<longrightarrow> fst (detect_incident rt caps d t) = Inl e)
        \<and> (assess_business_impact caps (calls_made t (device_id inc) 1) (device_id inc) (severity inc)
           = Inr (business_impact inc) \<longrightarrow>
          (identify_stakeholders caps (calls_made t (device_id inc) 2) (device_id inc) (severity inc)
             = Inl e \<longrightarrow> fst (detect_incident rt caps d t) = Inl e)
          \<and> (identify_stakeholders caps (calls_made t (device_id inc) 2) (device_id inc) (severity inc)
             = Inr (stakeholders inc) \<longrightarrow>
            (classify_incident_type caps (calls_made t (device_id inc) 4) (symptoms inc)
               = Inl e \<longrightarrow> fst (detect_incident rt caps d t) = Inl e)
            \<and> (classify_incident_type caps (calls_made t (device_id inc) 4) (symptoms inc)
               = Inr (incident_type inc) \<longrightarrow>
              (estimate_recovery_time caps (calls_made t (device_id inc) 6) (recovery_plan inc)
                 = Inl e \<longrightarrow> fst (detect_incident rt caps d t) = Inl e)
              \<and> (estimate_recovery_time caps (calls_made t (device_id inc) 6) (recovery_plan inc)
                 = Inr (estimated_recovery_time inc) \<longrightarrow>
                (record_incident caps (calls_made t (device_id inc) 7) inc
                   = Inl e \<longrightarrow> fst (detect_incident rt caps d t) = Inl e)
                \<and> (record_incident caps (calls_made t (device_id inc) 7) inc = Inr ()
                     \<and> alert_due inc
                     \<and> send_immediate_alert caps
                         (calls_made t (device_id inc) 7 @ [EvRecordIncident (incident_id inc)]) inc
                         = Inl e \<longrightarrow>
                   fst (detect_incident rt caps d t) = Inl e))))))
   \<and> (d ''device_id'' = Some (PStr dev) \<and> dev \<noteq> []
        \<and> detect_symptoms (float_str rt) d = Inr syms \<and> syms \<noteq> [] \<and> helpers_return caps \<longrightarrow>
        (\<exists>report. fst (detect_incident rt caps d t) = Inr (Some report)))"
proof (intro conjI)
  show "fst (detect_incident rt caps d t) = Inr None \<longleftrightarrow>
      \<not> truthy (dict_get d ''device_id'' PNone) \<or> detect_symptoms (float_str rt) d = Inr []"
    by (rule detect_incident_None)
  show "fst (detect_incident rt caps d t) = Inr None \<longrightarrow> snd (detect_incident rt caps d t) = t"
    by (simp add: detect_incident_None_trace)
  show "fst (detect_incident rt caps d t) = Inr (Some inc) \<longleftrightarrow>
        detected rt caps d t inc \<and> helper_calls_returned caps t inc"
    by (rule detect_incident_report)
  show "fst (detect_incident rt caps d t) = Inr (Some inc) \<longrightarrow>
        snd (detect_incident rt caps d t) =
          calls_made t (device_id inc) 7 @ EvRecordIncident (incident_id inc) #
            (if alert_due inc then [EvImmediateAlert (incident_id inc)] else [])"
    using detect_incident_report_trace [of rt caps d t inc] by blast
  show "truthy (dict_get d ''device_id'' PNone) \<and> detect_symptoms (float_str rt) d = Inl e \<longrightarrow>
        detect_incident rt caps d t = (Inl e, t)"
    by (simp add: detect_incident_detection_raises)
  show "truthy (dict_get d ''device_id'' PNone) \<and> detect_symptoms (float_str rt) d = Inr syms
        \<and> syms \<noteq> [] \<and> assess_severity syms d = Inl e \<longrightarrow>
        detect_incident rt caps d t = (Inl e, t)"
    by (simp add: detect_incident_assessment_raises)
  show "d ''device_id'' = Some (PStr dev) \<and> dev \<noteq> []
        \<and> detect_symptoms (float_str rt) d = Inr syms \<and> syms \<noteq> [] \<and> helpers_return caps \<longrightarrow>
        (\<exists>report. fst (detect_incident rt caps d t) = Inr (Some report))"
    using detect_incident_returns_report [of d dev rt syms caps t] by blast
qed (rule impI, erule helper_exception_propagates)

lemma scenario_A_detect:
  "detect_symptoms (float_str sample_runtime) scenario_A_snapshot = Inr [''Low battery voltage: 3.1V'']"
  using scenario_A_symptoms [OF scenario_A_snapshot_ok, of "float_str sample_runtime"]
  by (simp add: sample_runtime_def low_battery_symptom_def)

lemma sample_helpers_return: "helpers_return sample_detection_caps"
  by (simp add: helpers_return_def sample_detection_caps_def)

lemma sample_cause:
  "analyzed_cause caps' [''Low battery voltage: 3.1V''] scenario_A_snapshot [] = ''Battery cell degraded''"
  if "openai_chat caps' = openai_chat sample_detection_caps"
proof -
  have "strip ''  Battery cell degraded '' = ''Battery cell degraded''" by code_simp
  then show ?thesis using that by (simp add: analyzed_cause_def sample_detection_caps_def)
qed

lemma sample_detected:
  assumes "openai_chat caps' = openai_chat sample_detection_caps"
  shows "detected sample_runtime caps' scenario_A_snapshot [] sample_incident"
proof -
  have s: "assess_severity [''Low battery voltage: 3.1V''] scenario_A_snapshot = Inr MEDIUM"
    using scenario_A_severity [OF scenario_A_snapshot_ok, of "''3.1''"]
    by (simp add: low_battery_symptom_def)
  show ?thesis
    unfolding detected_def
    by (simp add: sample_incident_def scenario_A_detect s sample_cause [OF assms] calls_made_def)
       (simp add: scenario_A_snapshot_def sample_runtime_def)
qed

theorem detect_incident_outcomes_witness:
  "\<not> truthy (dict_get Map.empty ''device_id'' PNone)
   \<and> detect_incident sample_runtime sample_detection_caps Map.empty [] = (Inr None, [])
   \<and> detected sample_runtime sample_detection_caps scenario_A_snapshot [] sample_incident
   \<and> helper_calls_returned sample_detection_caps [] sample_incident
   \<and> detect_incident sample_runtime sample_detection_caps scenario_A_snapshot [] =
       (Inr (Some sample_incident),
        [EvOpenAI, EvBusinessImpact ''ESP32-001'', EvStakeholders ''ESP32-001'', EvClock,
         EvClassify, EvClock, EvEstimate, EvRecordIncident ''INC-20240101120000-ESP32-001''])
   \<and> detected sample_runtime unrecorded_caps scenario_A_snapshot [] sample_incident
   \<and> record_incident unrecorded_caps (calls_made [] ''ESP32-001'' 7) sample_incident
       = Inl (Raised ''disk full'')
   \<and> fst (detect_incident sample_runtime unrecorded_caps scenario_A_snapshot [])
       = Inl (Raised ''disk full'')"
proof -
  have a: "\<not> truthy (dict_get Map.empty ''device_id'' PNone)"
    by (simp add: dict_get_def)
  have n: "fst (detect_incident sample_runtime sample_detection_caps Map.empty []) = Inr None"
       "snd (detect_incident sample_runtime sample_detection_caps Map.empty []) = []"
    using detect_incident_outcomes [of sample_runtime sample_detection_caps Map.empty "[]"] a
    by simp_all
  have d: "detected sample_runtime sample_detection_caps scenario_A_snapshot [] sample_incident"
    by (rule sample_detected) simp
  have plan: "generate_recovery_plan ''Battery cell degraded'' MEDIUM =
      [mk_step 1 ''diagnostic_check'' ''Perform comprehensive diagnostic check'' 2 ''low'',
       mk_step 2 (action_value RESTART_SERVICE) ''Restart power management service'' 1 ''low'',
       mk_step 3 ''battery_optimization'' ''Optimize power consumption settings'' 5 ''medium'']"
    by (simp add: generate_recovery_plan_def Let_def battery_cause_lower)
  have h: "helper_calls_returned sample_detection_caps [] sample_incident"
    by (simp add: helper_calls_returned_def sample_detection_caps_def sample_incident_def
        alert_due_def plan mk_step_def)
  have r: "fst (detect_incident sample_runtime sample_detection_caps scenario_A_snapshot [])
             = Inr (Some sample_incident)"
       "snd (detect_incident sample_runtime sample_detection_caps scenario_A_snapshot []) =
          [EvOpenAI, EvBusinessImpact ''ESP32-001'', EvStakeholders ''ESP32-001'', EvClock,
           EvClassify, EvClock, EvEstimate, EvRecordIncident ''INC-20240101120000-ESP32-001'']"
    using detect_incident_outcomes [of sample_runtime sample_detection_caps scenario_A_snapshot "[]"
        sample_incident] d h
    by (simp_all add: calls_made_def alert_due_def sample_incident_def)
  have d': "detected sample_runtime unrecorded_caps scenario_A_snapshot [] sample_incident"
    by (rule sample_detected) (simp add: unrecorded_caps_def)
  have u: "record_incident unrecorded_caps (calls_made [] ''ESP32-001'' 7) sample_incident
       = Inl (Raised ''disk full'')"
    by (simp add: unrecorded_caps_def)
  have "fst (detect_incident sample_runtime unrecorded_caps scenario_A_snapshot [])
       = Inl (Raised ''disk full'')"
    using detect_incident_outcomes [of sample_runtime unrecorded_caps scenario_A_snapshot "[]"
        sample_incident "Raised ''disk full''"] d' u
    by (simp add: unrecorded_caps_def sample_detection_caps_def sample_incident_def plan mk_step_def)
  with a n d h r d' u show ?thesis
    by (metis prod.collapse)
qed

text \<open>
  C9 as stated fails: a snapshot with a device id and a temperature of \<^verbatim>\<open>None\<close> is
  not one for which detection yields the empty list, and \<^verbatim>\<open>detect_incident\<close> returns
  neither \<^verbatim>\<open>None\<close> nor a report for it: the comparison of \<^verbatim>\<open>None\<close> with 50 raises
  \<^verbatim>\<open>TypeError\<close>.
\<close>

theorem detect_incident_counterexample:
  "truthy (dict_get null_temperature_snapshot ''device_id'' PNone)
   \<and> detect_symptoms (float_str sample_runtime) null_temperature_snapshot \<noteq> Inr []
   \<and> detect_incident sample_runtime sample_detection_caps null_temperature_snapshot []
       = (Inl (not_supported ''>'' PNone (IntLit 50)), [])"
proof -
  have a: "truthy (dict_get null_temperature_snapshot ''device_id'' PNone)"
    by (simp add: null_temperature_snapshot_def dict_get_def)
  have b: "detect_symptoms (float_str sample_runtime) null_temperature_snapshot
      = Inl (not_supported ''>'' PNone (IntLit 50))"
    by (simp add: detect_symptoms_def null_temperature_snapshot_def dict_get_def Let_def
        append_if_def bind_exn_def py_or_def float_3_1_def)
  show ?thesis using a b by (simp add: detect_incident_detection_raises)
qed

section \<open>Absent metrics are read as 0\<close>

text \<open>
  C10. For every snapshot without \<^verbatim>\<open>battery_voltage\<close> and \<^verbatim>\<open>uptime_hours\<close>, the
  detector reports the low battery symptom and the frequent reboots symptom, both for
  the value 0, and an invalid reading symptom for each of temperature, humidity and
  pressure that is absent; it raises instead only when some metric that is present is
  no number the detector can compare, or a sensor reading that is present is one the
  validity check rejects (a string, or an integer outside the 64-bit ranges). For the snapshot that holds a device id and nothing else it returns these
  five symptoms, and \<^verbatim>\<open>detect_incident\<close> does not return \<^verbatim>\<open>None\<close> for it when the
  id is not empty: it returns a report when the helper methods return.
\<close>

theorem missing_metrics_default_to_zero:
  "(d ''battery_voltage'' = None \<and> d ''uptime_hours'' = None \<longrightarrow>
      (case detect_symptoms fs d of
         Inr syms \<Rightarrow>
           ''Low battery voltage: 0V'' \<in> set syms
           \<and> ''Frequent reboots detected: uptime 0h'' \<in> set syms
           \<and> (d ''temperature'' = None \<longrightarrow> invalid_reading_symptom ''temperature'' \<in> set syms)
           \<and> (d ''humidity'' = None \<longrightarrow> invalid_reading_symptom ''humidity'' \<in> set syms)
           \<and> (d ''pressure'' = None \<longrightarrow> invalid_reading_symptom ''pressure'' \<in> set syms)
       | Inl e \<Rightarrow> \<not> numeric_metrics d))
   \<and> detect_symptoms fs (only_device_id dev) =
       Inr [''Low battery voltage: 0V'', ''Frequent reboots detected: uptime 0h'',
            invalid_reading_symptom ''temperature'', invalid_reading_symptom ''humidity'',
            invalid_reading_symptom ''pressure'']
   \<and> (dev \<noteq> [] \<longrightarrow>
        fst (detect_incident rt caps (only_device_id dev) t) \<noteq> Inr None
        \<and> (helpers_return caps \<longrightarrow>
             (\<exists>report. fst (detect_incident rt caps (only_device_id dev) t) = Inr (Some report))))"
proof (intro conjI impI)
  assume m: "d ''battery_voltage'' = None \<and> d ''uptime_hours'' = None"
  show "case detect_symptoms fs d of
         Inr syms \<Rightarrow>
           ''Low battery voltage: 0V'' \<in> set syms
           \<and> ''Frequent reboots detected: uptime 0h'' \<in> set syms
           \<and> (d ''temperature'' = None \<longrightarrow> invalid_reading_symptom ''temperature'' \<in> set syms)
           \<and> (d ''humidity'' = None \<longrightarrow> invalid_reading_symptom ''humidity'' \<in> set syms)
           \<and> (d ''pressure'' = None \<longrightarrow> invalid_reading_symptom ''pressure'' \<in> set syms)
       | Inl e \<Rightarrow> \<not> numeric_metrics d"
  proof (cases "detect_symptoms fs d")
    case (Inl e)
    then show ?thesis using detect_symptoms_numeric [of d fs] by auto
  next
    case (Inr syms)
    from m have "d ''battery_voltage'' = None" "d ''uptime_hours'' = None" by simp_all
    from detect_symptoms_missing [OF this Inr] Inr show ?thesis by simp
  qed
next
  show "detect_symptoms fs (only_device_id dev) =
       Inr [''Low battery voltage: 0V'', ''Frequent reboots detected: uptime 0h'',
            invalid_reading_symptom ''temperature'', invalid_reading_symptom ''humidity'',
            invalid_reading_symptom ''pressure'']"
    by (rule only_device_id_symptoms)
next
  assume dev: "dev \<noteq> []"
  have id: "truthy (dict_get (only_device_id dev) ''device_id'' PNone)"
    using dev by (simp add: only_device_id_def dict_get_def)
  show "fst (detect_incident rt caps (only_device_id dev) t) \<noteq> Inr None"
    by (rule detect_incident_with_symptoms(1) [OF id only_device_id_symptoms]) simp
  show "\<exists>report. fst (detect_incident rt caps (only_device_id dev) t) = Inr (Some report)"
    if "helpers_return caps"
    by (rule detect_incident_returns_report [OF _ dev only_device_id_symptoms _ that])
       (simp_all add: only_device_id_def)
qed

theorem missing_metrics_default_to_zero_witness:
  "only_device_id ''ESP32-001'' ''battery_voltage'' = None
   \<and> only_device_id ''ESP32-001'' ''uptime_hours'' = None
   \<and> only_device_id ''ESP32-001'' ''humidity'' = None
   \<and> numeric_metrics (only_device_id ''ESP32-001'')
   \<and> (\<exists>syms. detect_symptoms (float_str sample_runtime) (only_device_id ''ESP32-001'') = Inr syms
        \<and> ''Low battery voltage: 0V'' \<in> set syms
        \<and> ''Frequent reboots detected: uptime 0h'' \<in> set syms
        \<and> ''Invalid humidity reading: None'' \<in> set syms)
   \<and> ''ESP32-001'' \<noteq> []
   \<and> helpers_return sample_detection_caps
   \<and> (\<exists>report. fst (detect_incident sample_runtime sample_detection_caps
          (only_device_id ''ESP32-001'') []) = Inr (Some report))"
  using missing_metrics_default_to_zero [of "only_device_id ''ESP32-001''"
      "float_str sample_runtime" "''ESP32-001''" sample_runtime sample_detection_caps "[]"]
    sample_helpers_return
  by (simp add: only_device_id_def numeric_metrics_def metric_keys_def sensor_keys_def
      numeric_or_missing_def checkable_def invalid_reading_symptom_def)

section \<open>Handlers: they return, and what they leave in the trace\<close>



lemma never_raises_and_then:
  "never_raises m \<Longrightarrow> (\<And>x. never_raises (f x)) \<Longrightarrow> never_raises (and_then m f)"
  unfolding never_raises_def and_then_def
  by (auto split: prod.splits sum.splits) (metis fst_conv sum.distinct(1))+














section \<open>One attempt: the loop, the verification, the result\<close>


















section \<open>Concrete runs\<close>




section \<open>One call of \<^verbatim>\<open>execute_recovery\<close> is one attempt\<close>




section \<open>Exceptions of the external calls\<close>





section \<open>The outcome of a recovery: two flags, no state\<close>







end
